theory Spec2Isabelle
  imports Complex_Main "HOL-Library.AList" "HOL-Library.Sublist"
begin

section \<open>Numbers, dates and errors\<close>

text \<open>
  Python's \<^verbatim>\<open>float\<close> has three values that are not numbers of the real line:
  \<^verbatim>\<open>inf\<close>, \<^verbatim>\<open>-inf\<close> and \<^verbatim>\<open>nan\<close>.  The validators of \<^verbatim>\<open>models.py\<close> decide on
  comparisons, and every comparison with \<^verbatim>\<open>nan\<close> is false, so the three values are kept.
  A finite float is represented by the rational it denotes and arithmetic on finite
  values is exact: rounding and overflow are outside this model.  A Python \<^verbatim>\<open>int\<close>
  that meets a float (the \<^verbatim>\<open>0\<close> a sum starts from, a filter bound) is the finite
  value of the same magnitude.
\<close>

datatype pyfloat = Fin rat | PInf | NInf | NaN

fun flt :: "pyfloat \<Rightarrow> pyfloat \<Rightarrow> bool" where
  "flt NaN _ = False"
| "flt _ NaN = False"
| "flt (Fin a) (Fin b) = (a < b)"
| "flt (Fin a) PInf = True"
| "flt (Fin a) NInf = False"
| "flt PInf _ = False"
| "flt NInf (Fin b) = True"
| "flt NInf PInf = True"
| "flt NInf NInf = False"

definition fle :: "pyfloat \<Rightarrow> pyfloat \<Rightarrow> bool" where
  "fle a b = (a \<noteq> NaN \<and> b \<noteq> NaN \<and> (a = b \<or> flt a b))"

definition fgt :: "pyfloat \<Rightarrow> pyfloat \<Rightarrow> bool" where
  "fgt a b = flt b a"

definition fge :: "pyfloat \<Rightarrow> pyfloat \<Rightarrow> bool" where
  "fge a b = fle b a"

fun fadd :: "pyfloat \<Rightarrow> pyfloat \<Rightarrow> pyfloat" where
  "fadd NaN _ = NaN"
| "fadd _ NaN = NaN"
| "fadd (Fin a) (Fin b) = Fin (a + b)"
| "fadd (Fin a) PInf = PInf"
| "fadd (Fin a) NInf = NInf"
| "fadd PInf (Fin b) = PInf"
| "fadd PInf PInf = PInf"
| "fadd PInf NInf = NaN"
| "fadd NInf (Fin b) = NInf"
| "fadd NInf NInf = NInf"
| "fadd NInf PInf = NaN"

text \<open>\<^verbatim>\<open>sum(xs)\<close>: a left fold from the integer 0.\<close>

definition py_sum :: "pyfloat list \<Rightarrow> pyfloat" where
  "py_sum xs = foldl fadd (Fin 0) xs"

datatype error =
    ValidationError "(string \<times> string) list"
  | ZeroDivisionError
  | TypeError
  | AttributeError

text \<open>\<^verbatim>\<open>x / n\<close> for a float \<^verbatim>\<open>x\<close> and a non-negative integer \<^verbatim>\<open>n\<close> (a length or a
  counter): Python raises on \<^verbatim>\<open>n = 0\<close>, and \<open>fdiv\<close> is the quotient otherwise.\<close>

definition fdiv :: "pyfloat \<Rightarrow> nat \<Rightarrow> pyfloat" where
  "fdiv x n = (case x of Fin a \<Rightarrow> Fin (a / of_nat n) | PInf \<Rightarrow> PInf | NInf \<Rightarrow> NInf | NaN \<Rightarrow> NaN)"

definition truediv :: "pyfloat \<Rightarrow> nat \<Rightarrow> error + pyfloat" where
  "truediv x n = (if n = 0 then Inl ZeroDivisionError else Inr (fdiv x n))"

text \<open>A \<^verbatim>\<open>datetime.date\<close>; dates compare as (year, month, day) triples.\<close>

datatype date = Date (year: nat) (month: nat) (day: nat)

definition date_lt :: "date \<Rightarrow> date \<Rightarrow> bool" where
  "date_lt a b = (year a < year b \<or> (year a = year b \<and>
      (month a < month b \<or> (month a = month b \<and> day a < day b))))"

definition date_le :: "date \<Rightarrow> date \<Rightarrow> bool" where
  "date_le a b = (a = b \<or> date_lt a b)"

text \<open>A \<^verbatim>\<open>datetime\<close> instant; only \<^verbatim>\<open>datetime.now()\<close> produces one, so the clock's
  reading is an argument of every function that asks for it.\<close>

type_synonym datetime = nat

section \<open>The data model (\<^verbatim>\<open>models.py\<close>)\<close>

datatype RiskLevel = VERY_LOW | LOW | MEDIUM | HIGH | VERY_HIGH

datatype ProductType = BOND | NOTE | CERTIFICATE | WARRANT | OPTION | FUTURE | SWAP | OTHER

datatype Currency = EUR | USD | GBP | CHF | JPY

datatype Country = FRANCE | BELGIUM

text \<open>The members' \<^verbatim>\<open>.value\<close>, and the members in definition order (what
  \<^verbatim>\<open>for c in Country\<close> iterates over).\<close>

fun RiskLevel_value :: "RiskLevel \<Rightarrow> string" where
  "RiskLevel_value VERY_LOW = ''1''"
| "RiskLevel_value LOW = ''2''"
| "RiskLevel_value MEDIUM = ''3''"
| "RiskLevel_value HIGH = ''4''"
| "RiskLevel_value VERY_HIGH = ''5''"

fun ProductType_value :: "ProductType \<Rightarrow> string" where
  "ProductType_value BOND = ''bond''"
| "ProductType_value NOTE = ''note''"
| "ProductType_value CERTIFICATE = ''certificate''"
| "ProductType_value WARRANT = ''warrant''"
| "ProductType_value OPTION = ''option''"
| "ProductType_value FUTURE = ''future''"
| "ProductType_value SWAP = ''swap''"
| "ProductType_value OTHER = ''other''"

fun Currency_value :: "Currency \<Rightarrow> string" where
  "Currency_value EUR = ''EUR''"
| "Currency_value USD = ''USD''"
| "Currency_value GBP = ''GBP''"
| "Currency_value CHF = ''CHF''"
| "Currency_value JPY = ''JPY''"

fun Country_value :: "Country \<Rightarrow> string" where
  "Country_value FRANCE = ''FR''"
| "Country_value BELGIUM = ''BE''"

definition all_RiskLevel :: "RiskLevel list" where
  "all_RiskLevel = [VERY_LOW, LOW, MEDIUM, HIGH, VERY_HIGH]"

definition all_ProductType :: "ProductType list" where
  "all_ProductType = [BOND, NOTE, CERTIFICATE, WARRANT, OPTION, FUTURE, SWAP, OTHER]"

definition all_Currency :: "Currency list" where
  "all_Currency = [EUR, USD, GBP, CHF, JPY]"

definition all_Country :: "Country list" where
  "all_Country = [FRANCE, BELGIUM]"

text \<open>\<^verbatim>\<open>Enum(value)\<close>: the member with that value, if there is one.\<close>

definition enum_of_value :: "'a list \<Rightarrow> ('a \<Rightarrow> string) \<Rightarrow> string \<Rightarrow> 'a option" where
  "enum_of_value members val s = find (\<lambda>m. val m = s) members"

record SRPProduct =
  product_id :: string
  product_name :: string
  issuer :: string
  country :: Country
  currency :: Currency
  issue_date :: date
  maturity_date :: "date option"
  nominal_value :: pyfloat
  coupon_rate :: "pyfloat option"
  product_type :: ProductType
  underlying_asset :: "string option"
  risk_level :: RiskLevel
  rating :: "string option"
  isin :: "string option"
  cusip :: "string option"
  min_investment :: "pyfloat option"
  max_investment :: "pyfloat option"
  liquidity :: "string option"
  fees :: "pyfloat option"
  created_at :: datetime
  updated_at :: datetime

text \<open>
  The keyword arguments of \<^verbatim>\<open>SRPProduct(...)\<close>.  An argument left out or given as
  \<^verbatim>\<open>None\<close> is \<open>None\<close>; an enumeration field is given by its value string; the
  other arguments already have the Python type of their field (the coercions pydantic
  tries on other types are the library's, not this repository's).
\<close>

record RawProduct =
  raw_product_id :: "string option"
  raw_product_name :: "string option"
  raw_issuer :: "string option"
  raw_country :: "string option"
  raw_currency :: "string option"
  raw_issue_date :: "date option"
  raw_maturity_date :: "date option"
  raw_nominal_value :: "pyfloat option"
  raw_coupon_rate :: "pyfloat option"
  raw_product_type :: "string option"
  raw_underlying_asset :: "string option"
  raw_risk_level :: "string option"
  raw_rating :: "string option"
  raw_isin :: "string option"
  raw_cusip :: "string option"
  raw_min_investment :: "pyfloat option"
  raw_max_investment :: "pyfloat option"
  raw_liquidity :: "string option"
  raw_fees :: "pyfloat option"
  raw_created_at :: "datetime option"
  raw_updated_at :: "datetime option"

text \<open>The three \<^verbatim>\<open>@validator\<close> methods.  A \<^verbatim>\<open>ValueError\<close> is \<open>Inl\<close> of its message
  (accents dropped).\<close>

definition validate_nominal_value :: "pyfloat \<Rightarrow> string + pyfloat" where
  "validate_nominal_value v =
     (if fle v (Fin 0) then Inl ''La valeur nominale doit etre positive'' else Inr v)"

definition validate_coupon_rate :: "pyfloat option \<Rightarrow> string + pyfloat option" where
  "validate_coupon_rate v =
     (case v of
        None \<Rightarrow> Inr None
      | Some c \<Rightarrow>
          if flt c (Fin 0) \<or> fgt c (Fin 100)
          then Inl ''Le taux de coupon doit etre entre 0 et 100%''
          else Inr (Some c))"

text \<open>\<open>issue\<close> is \<^verbatim>\<open>values.get('issue_date')\<close>: the issue date when that field was
  validated, \<open>None\<close> when it was not.\<close>

definition validate_maturity_date :: "date option \<Rightarrow> date option \<Rightarrow> string + date option" where
  "validate_maturity_date v issue =
     (case v of
        None \<Rightarrow> Inr None
      | Some m \<Rightarrow>
          (case issue of
             None \<Rightarrow> Inr (Some m)
           | Some i \<Rightarrow>
               if date_le m i
               then Inl ''La date d'echeance doit etre posterieure a la date d'emission''
               else Inr (Some m)))"

text \<open>
  What pydantic does with one field: a required field that is missing is an error; an
  enumeration field must name a member; a validator's \<^verbatim>\<open>ValueError\<close> becomes the
  field's error.  Each function returns the errors of the field (field name, message)
  and the validated value when there is none.
\<close>

definition required :: "string \<Rightarrow> 'a option \<Rightarrow> (string \<times> string) list \<times> 'a option" where
  "required name v =
     (case v of None \<Rightarrow> ([(name, ''field required'')], None) | Some x \<Rightarrow> ([], Some x))"

definition enum_field ::
  "string \<Rightarrow> 'a list \<Rightarrow> ('a \<Rightarrow> string) \<Rightarrow> string option \<Rightarrow> (string \<times> string) list \<times> 'a option" where
  "enum_field name members val v =
     (case v of
        None \<Rightarrow> ([(name, ''field required'')], None)
      | Some s \<Rightarrow>
          (case enum_of_value members val s of
             None \<Rightarrow> ([(name, ''value is not a valid enumeration member'')], None)
           | Some m \<Rightarrow> ([], Some m)))"

definition validated :: "string \<Rightarrow> string + 'a \<Rightarrow> (string \<times> string) list \<times> 'a option" where
  "validated name r = (case r of Inl msg \<Rightarrow> ([(name, msg)], None) | Inr x \<Rightarrow> ([], Some x))"

definition nominal_field :: "pyfloat option \<Rightarrow> (string \<times> string) list \<times> pyfloat option" where
  "nominal_field v =
     (case v of
        None \<Rightarrow> ([(''nominal_value'', ''field required'')], None)
      | Some x \<Rightarrow> validated ''nominal_value'' (validate_nominal_value x))"

text \<open>
  \<^verbatim>\<open>SRPProduct(**raw)\<close> at clock reading \<open>now\<close>.  The fields are validated in
  declaration order and all their errors are collected; the record is built only when
  there is none.
\<close>

definition SRPProduct_init :: "RawProduct \<Rightarrow> datetime \<Rightarrow> error + SRPProduct" where
  "SRPProduct_init raw now =
     (let f_id = required ''product_id'' (raw_product_id raw);
          f_name = required ''product_name'' (raw_product_name raw);
          f_issuer = required ''issuer'' (raw_issuer raw);
          f_country = enum_field ''country'' all_Country Country_value (raw_country raw);
          f_currency = enum_field ''currency'' all_Currency Currency_value (raw_currency raw);
          f_issue = required ''issue_date'' (raw_issue_date raw);
          f_maturity = validated ''maturity_date''
                         (validate_maturity_date (raw_maturity_date raw) (snd f_issue));
          f_nominal = nominal_field (raw_nominal_value raw);
          f_coupon = validated ''coupon_rate'' (validate_coupon_rate (raw_coupon_rate raw));
          f_type = enum_field ''product_type'' all_ProductType ProductType_value
                     (raw_product_type raw);
          f_risk = enum_field ''risk_level'' all_RiskLevel RiskLevel_value (raw_risk_level raw);
          errors = fst f_id @ fst f_name @ fst f_issuer @ fst f_country @ fst f_currency
                   @ fst f_issue @ fst f_maturity @ fst f_nominal @ fst f_coupon
                   @ fst f_type @ fst f_risk
      in case (snd f_id, snd f_name, snd f_issuer, snd f_country, snd f_currency,
               snd f_issue, snd f_maturity, snd f_nominal, snd f_coupon, snd f_type,
               snd f_risk) of
           (Some pid, Some pname, Some iss, Some ctry, Some cur, Some idate, Some mdate,
            Some nom, Some coup, Some ptype, Some risk) \<Rightarrow>
             Inr \<lparr> product_id = pid, product_name = pname, issuer = iss, country = ctry,
                   currency = cur, issue_date = idate, maturity_date = mdate,
                   nominal_value = nom, coupon_rate = coup, product_type = ptype,
                   underlying_asset = raw_underlying_asset raw, risk_level = risk,
                   rating = raw_rating raw, isin = raw_isin raw, cusip = raw_cusip raw,
                   min_investment = raw_min_investment raw,
                   max_investment = raw_max_investment raw,
                   liquidity = raw_liquidity raw, fees = raw_fees raw,
                   created_at = (case raw_created_at raw of None \<Rightarrow> now | Some t \<Rightarrow> t),
                   updated_at = (case raw_updated_at raw of None \<Rightarrow> now | Some t \<Rightarrow> t) \<rparr>
         | _ \<Rightarrow> Inl (ValidationError errors))"

record SRPProductList =
  products :: "SRPProduct list"
  total_count :: int
  countries :: "Country list"
  currencies :: "Currency list"
  date_range :: "(string \<times> date) list"

definition SRPProductList_init :: SRPProductList where
  "SRPProductList_init =
     \<lparr> products = [], total_count = 0, countries = [], currencies = [], date_range = [] \<rparr>"

definition add_product :: "SRPProductList \<Rightarrow> SRPProduct \<Rightarrow> SRPProductList" where
  "add_product self product =
     (let s1 = self\<lparr> products := products self @ [product] \<rparr>;
          s2 = s1\<lparr> total_count := int (length (products s1)) \<rparr>;
          s3 = (if country product \<notin> set (countries s2)
                then s2\<lparr> countries := countries s2 @ [country product] \<rparr> else s2);
          s4 = (if currency product \<notin> set (currencies s3)
                then s3\<lparr> currencies := currencies s3 @ [currency product] \<rparr> else s3)
      in s4)"

definition get_products_by_country :: "SRPProductList \<Rightarrow> Country \<Rightarrow> SRPProduct list" where
  "get_products_by_country self c = filter (\<lambda>p. country p = c) (products self)"

definition get_products_by_currency :: "SRPProductList \<Rightarrow> Currency \<Rightarrow> SRPProduct list" where
  "get_products_by_currency self c = filter (\<lambda>p. currency p = c) (products self)"

definition get_products_by_risk_level :: "SRPProductList \<Rightarrow> RiskLevel \<Rightarrow> SRPProduct list" where
  "get_products_by_risk_level self r = filter (\<lambda>p. risk_level p = r) (products self)"

section \<open>Building blocks of the analyzer (\<^verbatim>\<open>analyzer.py\<close>)\<close>

text \<open>
  A Python \<^verbatim>\<open>dict\<close> keeps its keys in insertion order and the report iterates over
  \<^verbatim>\<open>items()\<close>, so a dict is an association list: \<open>AList.update\<close> replaces the value
  of a key in place and appends a new key at the end, \<open>map_of\<close> looks a key up.
  \<^verbatim>\<open>list(set(...))\<close> is a list in an order the program does not control: it is
  modelled by the set itself.
\<close>

text \<open>\<^verbatim>\<open>Counter(xs)\<close>: the number of occurrences of each element, keys in order of first
  occurrence.\<close>

fun counter_add :: "'a \<Rightarrow> ('a \<times> nat) list \<Rightarrow> ('a \<times> nat) list" where
  "counter_add x [] = [(x, 1)]"
| "counter_add x ((k, n) # r) = (if k = x then (k, n + 1) # r else (k, n) # counter_add x r)"

definition Counter :: "'a list \<Rightarrow> ('a \<times> nat) list" where
  "Counter xs = foldl (\<lambda>c x. counter_add x c) [] xs"

text \<open>
  \<^verbatim>\<open>list.sort(key=..., reverse=True)\<close>.  CPython reverses the list, sorts it stably
  in ascending order asking only \<^verbatim>\<open><\<close> of the keys, and reverses the result.  The
  stable ascending sort is written as insertion sort: where \<^verbatim>\<open><\<close> orders the keys
  totally every stable sort returns the same list.  With a \<^verbatim>\<open>nan\<close> among the keys the
  list CPython leaves depends on the runs its merge sort detects; nothing is claimed
  about the order in that case.
\<close>

fun insort_lt :: "('k \<Rightarrow> 'k \<Rightarrow> bool) \<Rightarrow> ('a \<Rightarrow> 'k) \<Rightarrow> 'a \<Rightarrow> 'a list \<Rightarrow> 'a list" where
  "insort_lt lt key x [] = [x]"
| "insort_lt lt key x (y # ys) =
     (if lt (key x) (key y) then x # y # ys else y # insort_lt lt key x ys)"

definition sort_lt :: "('k \<Rightarrow> 'k \<Rightarrow> bool) \<Rightarrow> ('a \<Rightarrow> 'k) \<Rightarrow> 'a list \<Rightarrow> 'a list" where
  "sort_lt lt key xs = foldl (\<lambda>acc x. insort_lt lt key x acc) [] xs"

definition sort_reverse :: "('k \<Rightarrow> 'k \<Rightarrow> bool) \<Rightarrow> ('a \<Rightarrow> 'k) \<Rightarrow> 'a list \<Rightarrow> 'a list" where
  "sort_reverse lt key xs = rev (sort_lt lt key (rev xs))"

text \<open>\<^verbatim>\<open>Counter.most_common(n)\<close> is \<^verbatim>\<open>heapq.nlargest(n, items, key=count)\<close>, which
  returns what \<^verbatim>\<open>sorted(items, key=count, reverse=True)[:n]\<close> returns.\<close>

definition most_common :: "nat \<Rightarrow> ('a \<times> nat) list \<Rightarrow> ('a \<times> nat) list" where
  "most_common n c = take n (sort_reverse (<) snd c)"

text \<open>The statistics dictionary of one partition.  The four analyses store different
  keys; a key that an analysis does not store is \<open>None\<close>.  \<^verbatim>\<open>average_coupon\<close> is
  stored by the product-type analysis only, and its value may itself be \<^verbatim>\<open>None\<close>.\<close>

record Stats =
  s_count :: nat
  s_total_value :: pyfloat
  s_average_value :: pyfloat
  s_countries :: "string set option"
  s_currencies :: "string set option"
  s_product_types :: "string set option"
  s_risk_distribution :: "(string \<times> nat) list option"
  s_top_issuers :: "(string \<times> nat) list option"
  s_average_coupon :: "pyfloat option option"

text \<open>An entry of \<^verbatim>\<open>top_issuers\<close>, and the accumulator the issuer loop keeps per issuer
  (the value the \<^verbatim>\<open>defaultdict\<close> creates on first access is \<open>IssuerAcc_default\<close>).\<close>

record IssuerStats =
  i_issuer :: string
  i_count :: nat
  i_total_value :: pyfloat
  i_average_value :: pyfloat
  i_countries :: "string set"
  i_currencies :: "string set"
  i_product_types :: "string set"

record IssuerAcc =
  a_count :: nat
  a_total_value :: pyfloat
  a_countries :: "string set"
  a_currencies :: "string set"
  a_product_types :: "string set"

definition IssuerAcc_default :: IssuerAcc where
  "IssuerAcc_default =
     \<lparr> a_count = 0, a_total_value = Fin 0, a_countries = {}, a_currencies = {},
       a_product_types = {} \<rparr>"

record MonthAcc =
  m_count :: nat
  m_total_value :: pyfloat
  m_countries :: "string set"
  m_currencies :: "string set"

definition MonthAcc_default :: MonthAcc where
  "MonthAcc_default = \<lparr> m_count = 0, m_total_value = Fin 0, m_countries = {}, m_currencies = {} \<rparr>"

record MonthStats =
  ms_count :: nat
  ms_total_value :: pyfloat
  ms_average_value :: pyfloat
  ms_countries :: "string set"
  ms_currencies :: "string set"

record SRPAnalysis =
  total_products :: int
  total_value :: pyfloat
  average_nominal_value :: pyfloat
  by_country :: "(Country \<times> Stats) list"
  by_currency :: "(Currency \<times> Stats) list"
  by_risk_level :: "(RiskLevel \<times> Stats) list"
  by_product_type :: "(ProductType \<times> Stats) list"
  top_issuers :: "IssuerStats list"
  monthly_evolution :: "(string \<times> MonthStats) list"

definition SRPAnalysis_init :: SRPAnalysis where
  "SRPAnalysis_init =
     \<lparr> total_products = 0, total_value = Fin 0, average_nominal_value = Fin 0,
       by_country = [], by_currency = [], by_risk_level = [], by_product_type = [],
       top_issuers = [], monthly_evolution = [] \<rparr>"

text \<open>The analyzer object: \<^verbatim>\<open>self.products\<close> and \<^verbatim>\<open>self.analysis\<close>.  A pydantic model
  is always truthy, so \<^verbatim>\<open>products or X\<close> is \<^verbatim>\<open>products\<close> unless it is \<^verbatim>\<open>None\<close>.\<close>

record SRPAnalyzer =
  self_products :: SRPProductList
  self_analysis :: SRPAnalysis

definition SRPAnalyzer_init :: "SRPProductList option \<Rightarrow> SRPAnalyzer" where
  "SRPAnalyzer_init ps =
     \<lparr> self_products = (case ps of None \<Rightarrow> SRPProductList_init | Some p \<Rightarrow> p),
       self_analysis = SRPAnalysis_init \<rparr>"

definition get_top_issuers :: "SRPProduct list \<Rightarrow> nat \<Rightarrow> (string \<times> nat) list" where
  "get_top_issuers ps limit = most_common limit (Counter (map issuer ps))"

definition calculate_average_coupon :: "SRPProduct list \<Rightarrow> error + pyfloat option" where
  "calculate_average_coupon ps =
     (let coupons = List.map_filter coupon_rate ps
      in if coupons \<noteq> []
         then (case truediv (py_sum coupons) (length coupons) of
                 Inl e \<Rightarrow> Inl e
               | Inr x \<Rightarrow> Inr (Some x))
         else Inr None)"

definition set_analysis :: "SRPAnalyzer \<Rightarrow> (SRPAnalysis \<Rightarrow> SRPAnalysis) \<Rightarrow> SRPAnalyzer" where
  "set_analysis self f = self\<lparr> self_analysis := f (self_analysis self) \<rparr>"

subsection \<open>\<^verbatim>\<open>_analyze_basic_stats\<close>\<close>

definition analyze_basic_stats :: "SRPAnalyzer \<Rightarrow> error + SRPAnalyzer" where
  "analyze_basic_stats self =
     (let ps = products (self_products self);
          s1 = set_analysis self (\<lambda>a. a\<lparr> total_products := int (length ps) \<rparr>);
          s2 = set_analysis s1 (\<lambda>a. a\<lparr> total_value := py_sum (map nominal_value ps) \<rparr>)
      in if ps \<noteq> []
         then (case truediv (total_value (self_analysis s2)) (length ps) of
                 Inl e \<Rightarrow> Inl e
               | Inr avg \<Rightarrow> Inr (set_analysis s2 (\<lambda>a. a\<lparr> average_nominal_value := avg \<rparr>)))
         else Inr s2)"

subsection \<open>The four breakdowns\<close>

definition country_stats :: "SRPProduct list \<Rightarrow> error + Stats" where
  "country_stats cps =
     (case truediv (py_sum (map nominal_value cps)) (length cps) of
        Inl e \<Rightarrow> Inl e
      | Inr avg \<Rightarrow>
          Inr \<lparr> s_count = length cps,
                s_total_value = py_sum (map nominal_value cps),
                s_average_value = avg,
                s_countries = None,
                s_currencies = Some (set (map (\<lambda>p. Currency_value (currency p)) cps)),
                s_product_types = Some (set (map (\<lambda>p. ProductType_value (product_type p)) cps)),
                s_risk_distribution = Some (Counter (map (\<lambda>p. RiskLevel_value (risk_level p)) cps)),
                s_top_issuers = Some (get_top_issuers cps 5),
                s_average_coupon = None \<rparr>)"

fun country_loop :: "Country list \<Rightarrow> SRPAnalyzer \<Rightarrow> error + SRPAnalyzer" where
  "country_loop [] self = Inr self"
| "country_loop (c # cs) self =
     (let cps = filter (\<lambda>p. country p = c) (products (self_products self))
      in if cps \<noteq> []
         then (case country_stats cps of
                 Inl e \<Rightarrow> Inl e
               | Inr st \<Rightarrow>
                   country_loop cs
                     (set_analysis self (\<lambda>a. a\<lparr> by_country := AList.update c st (by_country a) \<rparr>)))
         else country_loop cs self)"

definition analyze_by_country :: "SRPAnalyzer \<Rightarrow> error + SRPAnalyzer" where
  "analyze_by_country self = country_loop all_Country self"

definition currency_stats :: "SRPProduct list \<Rightarrow> error + Stats" where
  "currency_stats cps =
     (case truediv (py_sum (map nominal_value cps)) (length cps) of
        Inl e \<Rightarrow> Inl e
      | Inr avg \<Rightarrow>
          Inr \<lparr> s_count = length cps,
                s_total_value = py_sum (map nominal_value cps),
                s_average_value = avg,
                s_countries = Some (set (map (\<lambda>p. Country_value (country p)) cps)),
                s_currencies = None,
                s_product_types = Some (set (map (\<lambda>p. ProductType_value (product_type p)) cps)),
                s_risk_distribution = Some (Counter (map (\<lambda>p. RiskLevel_value (risk_level p)) cps)),
                s_top_issuers = None,
                s_average_coupon = None \<rparr>)"

fun currency_loop :: "Currency list \<Rightarrow> SRPAnalyzer \<Rightarrow> error + SRPAnalyzer" where
  "currency_loop [] self = Inr self"
| "currency_loop (c # cs) self =
     (let cps = filter (\<lambda>p. currency p = c) (products (self_products self))
      in if cps \<noteq> []
         then (case currency_stats cps of
                 Inl e \<Rightarrow> Inl e
               | Inr st \<Rightarrow>
                   currency_loop cs
                     (set_analysis self (\<lambda>a. a\<lparr> by_currency := AList.update c st (by_currency a) \<rparr>)))
         else currency_loop cs self)"

definition analyze_by_currency :: "SRPAnalyzer \<Rightarrow> error + SRPAnalyzer" where
  "analyze_by_currency self = currency_loop all_Currency self"

definition risk_stats :: "SRPProduct list \<Rightarrow> error + Stats" where
  "risk_stats rps =
     (case truediv (py_sum (map nominal_value rps)) (length rps) of
        Inl e \<Rightarrow> Inl e
      | Inr avg \<Rightarrow>
          Inr \<lparr> s_count = length rps,
                s_total_value = py_sum (map nominal_value rps),
                s_average_value = avg,
                s_countries = Some (set (map (\<lambda>p. Country_value (country p)) rps)),
                s_currencies = Some (set (map (\<lambda>p. Currency_value (currency p)) rps)),
                s_product_types = Some (set (map (\<lambda>p. ProductType_value (product_type p)) rps)),
                s_risk_distribution = None,
                s_top_issuers = Some (get_top_issuers rps 3),
                s_average_coupon = None \<rparr>)"

fun risk_loop :: "RiskLevel list \<Rightarrow> SRPAnalyzer \<Rightarrow> error + SRPAnalyzer" where
  "risk_loop [] self = Inr self"
| "risk_loop (r # rs) self =
     (let rps = filter (\<lambda>p. risk_level p = r) (products (self_products self))
      in if rps \<noteq> []
         then (case risk_stats rps of
                 Inl e \<Rightarrow> Inl e
               | Inr st \<Rightarrow>
                   risk_loop rs
                     (set_analysis self
                        (\<lambda>a. a\<lparr> by_risk_level := AList.update r st (by_risk_level a) \<rparr>)))
         else risk_loop rs self)"

definition analyze_by_risk_level :: "SRPAnalyzer \<Rightarrow> error + SRPAnalyzer" where
  "analyze_by_risk_level self = risk_loop all_RiskLevel self"

definition type_stats :: "SRPProduct list \<Rightarrow> error + Stats" where
  "type_stats tps =
     (case truediv (py_sum (map nominal_value tps)) (length tps) of
        Inl e \<Rightarrow> Inl e
      | Inr avg \<Rightarrow>
          (case calculate_average_coupon tps of
             Inl e \<Rightarrow> Inl e
           | Inr coupon \<Rightarrow>
               Inr \<lparr> s_count = length tps,
                     s_total_value = py_sum (map nominal_value tps),
                     s_average_value = avg,
                     s_countries = Some (set (map (\<lambda>p. Country_value (country p)) tps)),
                     s_currencies = Some (set (map (\<lambda>p. Currency_value (currency p)) tps)),
                     s_product_types = None,
                     s_risk_distribution =
                       Some (Counter (map (\<lambda>p. RiskLevel_value (risk_level p)) tps)),
                     s_top_issuers = None,
                     s_average_coupon = Some coupon \<rparr>))"

fun type_loop :: "ProductType list \<Rightarrow> SRPAnalyzer \<Rightarrow> error + SRPAnalyzer" where
  "type_loop [] self = Inr self"
| "type_loop (t # ts) self =
     (let tps = filter (\<lambda>p. product_type p = t) (products (self_products self))
      in if tps \<noteq> []
         then (case type_stats tps of
                 Inl e \<Rightarrow> Inl e
               | Inr st \<Rightarrow>
                   type_loop ts
                     (set_analysis self
                        (\<lambda>a. a\<lparr> by_product_type := AList.update t st (by_product_type a) \<rparr>)))
         else type_loop ts self)"

definition analyze_by_product_type :: "SRPAnalyzer \<Rightarrow> error + SRPAnalyzer" where
  "analyze_by_product_type self = type_loop all_ProductType self"

subsection \<open>\<^verbatim>\<open>_analyze_top_issuers\<close>\<close>

definition issuer_step :: "(string \<times> IssuerAcc) list \<Rightarrow> SRPProduct \<Rightarrow> (string \<times> IssuerAcc) list" where
  "issuer_step st p =
     (let cur = (case map_of st (issuer p) of None \<Rightarrow> IssuerAcc_default | Some a \<Rightarrow> a)
      in AList.update (issuer p)
           (cur\<lparr> a_count := a_count cur + 1,
                 a_total_value := fadd (a_total_value cur) (nominal_value p),
                 a_countries := insert (Country_value (country p)) (a_countries cur),
                 a_currencies := insert (Currency_value (currency p)) (a_currencies cur),
                 a_product_types :=
                   insert (ProductType_value (product_type p)) (a_product_types cur) \<rparr>)
           st)"

definition issuer_stats :: "SRPProduct list \<Rightarrow> (string \<times> IssuerAcc) list" where
  "issuer_stats ps = foldl issuer_step [] ps"

fun issuer_entries :: "(string \<times> IssuerAcc) list \<Rightarrow> error + IssuerStats list" where
  "issuer_entries [] = Inr []"
| "issuer_entries ((i, a) # r) =
     (case truediv (a_total_value a) (a_count a) of
        Inl e \<Rightarrow> Inl e
      | Inr avg \<Rightarrow>
          (case issuer_entries r of
             Inl e \<Rightarrow> Inl e
           | Inr es \<Rightarrow>
               Inr (\<lparr> i_issuer = i, i_count = a_count a, i_total_value = a_total_value a,
                       i_average_value = avg, i_countries = a_countries a,
                       i_currencies = a_currencies a,
                       i_product_types = a_product_types a \<rparr> # es)))"

definition analyze_top_issuers :: "SRPAnalyzer \<Rightarrow> error + SRPAnalyzer" where
  "analyze_top_issuers self =
     (case issuer_entries (issuer_stats (products (self_products self))) of
        Inl e \<Rightarrow> Inl e
      | Inr es \<Rightarrow>
          Inr (set_analysis self
                 (\<lambda>a. a\<lparr> top_issuers := take 10 (sort_reverse flt i_total_value es) \<rparr>)))"

subsection \<open>\<^verbatim>\<open>_analyze_temporal_evolution\<close>\<close>

text \<open>The month key \<^verbatim>\<open>f"{year}-{month:02d}"\<close>.\<close>

fun str_of_nat :: "nat \<Rightarrow> string" where
  "str_of_nat n =
     (if n < 10 then [''0123456789'' ! n]
      else str_of_nat (n div 10) @ [''0123456789'' ! (n mod 10)])"

definition zfill2 :: "string \<Rightarrow> string" where
  "zfill2 s = replicate (2 - length s) (CHR ''0'') @ s"

definition month_key :: "date \<Rightarrow> string" where
  "month_key d = str_of_nat (year d) @ ''-'' @ zfill2 (str_of_nat (month d))"

definition month_step :: "(string \<times> MonthAcc) list \<Rightarrow> SRPProduct \<Rightarrow> (string \<times> MonthAcc) list" where
  "month_step st p =
     (let k = month_key (issue_date p);
          cur = (case map_of st k of None \<Rightarrow> MonthAcc_default | Some a \<Rightarrow> a)
      in AList.update k
           (cur\<lparr> m_count := m_count cur + 1,
                 m_total_value := fadd (m_total_value cur) (nominal_value p),
                 m_countries := insert (Country_value (country p)) (m_countries cur),
                 m_currencies := insert (Currency_value (currency p)) (m_currencies cur) \<rparr>)
           st)"

definition monthly_stats :: "SRPProduct list \<Rightarrow> (string \<times> MonthAcc) list" where
  "monthly_stats ps = foldl month_step [] ps"

fun month_loop :: "(string \<times> MonthAcc) list \<Rightarrow> SRPAnalyzer \<Rightarrow> error + SRPAnalyzer" where
  "month_loop [] self = Inr self"
| "month_loop ((k, a) # r) self =
     (case (if m_count a > 0 then truediv (m_total_value a) (m_count a) else Inr (Fin 0)) of
        Inl e \<Rightarrow> Inl e
      | Inr avg \<Rightarrow>
          month_loop r
            (set_analysis self
               (\<lambda>an. an\<lparr> monthly_evolution :=
                  AList.update k
                    \<lparr> ms_count = m_count a, ms_total_value = m_total_value a,
                      ms_average_value = avg, ms_countries = m_countries a,
                      ms_currencies = m_currencies a \<rparr>
                    (monthly_evolution an) \<rparr>)))"

definition analyze_temporal_evolution :: "SRPAnalyzer \<Rightarrow> error + SRPAnalyzer" where
  "analyze_temporal_evolution self =
     month_loop (monthly_stats (products (self_products self))) self"

subsection \<open>\<^verbatim>\<open>analyze_products\<close>\<close>

definition bind_err :: "error + 'a \<Rightarrow> ('a \<Rightarrow> error + 'b) \<Rightarrow> error + 'b" where
  "bind_err m f = (case m of Inl e \<Rightarrow> Inl e | Inr x \<Rightarrow> f x)"

text \<open>The method returns \<^verbatim>\<open>self.analysis\<close> and leaves the analyzer changed: the result
  is the pair of the returned analysis and the analyzer after the call.\<close>

definition analyze_products ::
  "SRPAnalyzer \<Rightarrow> SRPProductList option \<Rightarrow> error + (SRPAnalysis \<times> SRPAnalyzer)" where
  "analyze_products self ps =
     (let s0 = self\<lparr> self_products := (case ps of None \<Rightarrow> self_products self | Some p \<Rightarrow> p) \<rparr>
      in if products (self_products s0) = [] then Inr (self_analysis s0, s0)
         else
           bind_err (analyze_basic_stats s0) (\<lambda>s1.
           bind_err (analyze_by_country s1) (\<lambda>s2.
           bind_err (analyze_by_currency s2) (\<lambda>s3.
           bind_err (analyze_by_risk_level s3) (\<lambda>s4.
           bind_err (analyze_by_product_type s4) (\<lambda>s5.
           bind_err (analyze_top_issuers s5) (\<lambda>s6.
           bind_err (analyze_temporal_evolution s6) (\<lambda>s7.
           Inr (self_analysis s7, s7)))))))))"

subsection \<open>\<^verbatim>\<open>get_filtered_products\<close>\<close>

text \<open>
  The filter dictionary is a \<^verbatim>\<open>Dict[str, Any]\<close>.  Its values are strings and numbers;
  the code compares them with \<^verbatim>\<open>==\<close> (never an error: a string and a number are
  unequal), with \<^verbatim>\<open>>=\<close> and \<^verbatim>\<open><=\<close> against a float (a \<^verbatim>\<open>TypeError\<close> on a string), and
  calls \<^verbatim>\<open>.lower()\<close> on them (an \<^verbatim>\<open>AttributeError\<close> on a number).  The test of a list
  comprehension is evaluated once per element, so an ill-typed value raises only when
  the list it filters is not empty.
\<close>

datatype pyval = VStr string | VNum pyfloat

definition eq_str :: "string \<Rightarrow> pyval \<Rightarrow> bool" where
  "eq_str s v = (case v of VStr t \<Rightarrow> s = t | VNum x \<Rightarrow> False)"

text \<open>
  \<^verbatim>\<open>str.lower()\<close>.  A character of the model is a code point below 256 (ASCII and the
  Latin-1 supplement).  On these \<^verbatim>\<open>str.lower()\<close> works character by character and keeps
  the length: it adds 32 to the code points of A to Z (65 to 90) and of the capital
  letters 192 to 222 of the Latin-1 supplement, the multiplication sign 215 apart, and
  keeps every other code point (among them the sharp s 223 and the micro sign 181).
\<close>

definition upper_letters :: string where
  "upper_letters = ''ABCDEFGHIJKLMNOPQRSTUVWXYZ'' @
       [CHR 0xC0, CHR 0xC1, CHR 0xC2, CHR 0xC3, CHR 0xC4, CHR 0xC5, CHR 0xC6, CHR 0xC7,
        CHR 0xC8, CHR 0xC9, CHR 0xCA, CHR 0xCB, CHR 0xCC, CHR 0xCD, CHR 0xCE, CHR 0xCF,
        CHR 0xD0, CHR 0xD1, CHR 0xD2, CHR 0xD3, CHR 0xD4, CHR 0xD5, CHR 0xD6, CHR 0xD8,
        CHR 0xD9, CHR 0xDA, CHR 0xDB, CHR 0xDC, CHR 0xDD, CHR 0xDE]"

definition lower_letters :: string where
  "lower_letters = ''abcdefghijklmnopqrstuvwxyz'' @
       [CHR 0xE0, CHR 0xE1, CHR 0xE2, CHR 0xE3, CHR 0xE4, CHR 0xE5, CHR 0xE6, CHR 0xE7,
        CHR 0xE8, CHR 0xE9, CHR 0xEA, CHR 0xEB, CHR 0xEC, CHR 0xED, CHR 0xEE, CHR 0xEF,
        CHR 0xF0, CHR 0xF1, CHR 0xF2, CHR 0xF3, CHR 0xF4, CHR 0xF5, CHR 0xF6, CHR 0xF8,
        CHR 0xF9, CHR 0xFA, CHR 0xFB, CHR 0xFC, CHR 0xFD, CHR 0xFE]"

definition char_lower :: "char \<Rightarrow> char" where
  "char_lower c = (case map_of (zip upper_letters lower_letters) c of None \<Rightarrow> c | Some l \<Rightarrow> l)"

definition str_lower :: "string \<Rightarrow> string" where
  "str_lower s = map char_lower s"

definition filter_min :: "pyval \<Rightarrow> SRPProduct list \<Rightarrow> error + SRPProduct list" where
  "filter_min v ps =
     (case v of
        VNum b \<Rightarrow> Inr (filter (\<lambda>p. fge (nominal_value p) b) ps)
      | VStr t \<Rightarrow> if ps = [] then Inr [] else Inl TypeError)"

definition filter_max :: "pyval \<Rightarrow> SRPProduct list \<Rightarrow> error + SRPProduct list" where
  "filter_max v ps =
     (case v of
        VNum b \<Rightarrow> Inr (filter (\<lambda>p. fle (nominal_value p) b) ps)
      | VStr t \<Rightarrow> if ps = [] then Inr [] else Inl TypeError)"

definition filter_issuer :: "pyval \<Rightarrow> SRPProduct list \<Rightarrow> error + SRPProduct list" where
  "filter_issuer v ps =
     (case v of
        VStr t \<Rightarrow> Inr (filter (\<lambda>p. sublist (str_lower t) (str_lower (issuer p))) ps)
      | VNum x \<Rightarrow> if ps = [] then Inr [] else Inl AttributeError)"

definition get_filtered_products ::
  "SRPAnalyzer \<Rightarrow> (string \<rightharpoonup> pyval) option \<Rightarrow> error + SRPProduct list" where
  "get_filtered_products self fs =
     (let filters = (case fs of None \<Rightarrow> Map.empty | Some f \<Rightarrow> f);
          ps0 = products (self_products self);
          ps1 = (case filters ''country'' of
                   None \<Rightarrow> ps0
                 | Some v \<Rightarrow> filter (\<lambda>p. eq_str (Country_value (country p)) v) ps0);
          ps2 = (case filters ''currency'' of
                   None \<Rightarrow> ps1
                 | Some v \<Rightarrow> filter (\<lambda>p. eq_str (Currency_value (currency p)) v) ps1);
          ps3 = (case filters ''product_type'' of
                   None \<Rightarrow> ps2
                 | Some v \<Rightarrow> filter (\<lambda>p. eq_str (ProductType_value (product_type p)) v) ps2);
          ps4 = (case filters ''risk_level'' of
                   None \<Rightarrow> ps3
                 | Some v \<Rightarrow> filter (\<lambda>p. eq_str (RiskLevel_value (risk_level p)) v) ps3)
      in bind_err (case filters ''min_nominal_value'' of
                     None \<Rightarrow> Inr ps4 | Some v \<Rightarrow> filter_min v ps4) (\<lambda>ps5.
         bind_err (case filters ''max_nominal_value'' of
                     None \<Rightarrow> Inr ps5 | Some v \<Rightarrow> filter_max v ps5) (\<lambda>ps6.
         (case filters ''issuer'' of None \<Rightarrow> Inr ps6 | Some v \<Rightarrow> filter_issuer v ps6))))"

subsection \<open>\<^verbatim>\<open>generate_report\<close>\<close>

text \<open>
  The report is a string of markup assembled from fixed templates with values of
  \<^verbatim>\<open>self.analysis\<close> formatted into them.  The model keeps the sequence of templates and
  the values each one receives: one \<open>block\<close> per template, in the order of
  concatenation.  \<open>NoData\<close> is the paragraph
  \<^verbatim>\<open><p>Aucune donnee a analyser</p>\<close>; \<open>Header\<close> is the document head with the line
  \<^verbatim>\<open>Genere le ...\<close> that prints the clock; \<open>Footer\<close> closes \<^verbatim>\<open>body\<close> and \<^verbatim>\<open>html\<close>.
  Writing the string to \<^verbatim>\<open>output_file\<close> is input/output and does not change what the
  method returns.
\<close>

datatype block =
    NoData
  | Header datetime
  | GeneralStats int pyfloat pyfloat
  | CountrySection "(string \<times> nat \<times> pyfloat \<times> pyfloat) list"
  | CurrencySection "(string \<times> nat \<times> pyfloat) list"
  | RiskSection "(string \<times> string \<times> nat \<times> pyfloat) list"
  | IssuersSection "(string \<times> nat \<times> pyfloat \<times> pyfloat) list"
  | Footer

definition generate_country_section :: "SRPAnalyzer \<Rightarrow> block" where
  "generate_country_section self =
     CountrySection
       (map (\<lambda>(c, st). (Country_value c, s_count st, s_total_value st, s_average_value st))
          (by_country (self_analysis self)))"

definition generate_currency_section :: "SRPAnalyzer \<Rightarrow> block" where
  "generate_currency_section self =
     CurrencySection
       (map (\<lambda>(c, st). (Currency_value c, s_count st, s_total_value st))
          (by_currency (self_analysis self)))"

definition risk_labels :: "(string \<times> string) list" where
  "risk_labels =
     [(''1'', ''Tres faible''), (''2'', ''Faible''), (''3'', ''Moyen''), (''4'', ''Eleve''),
      (''5'', ''Tres eleve'')]"

definition generate_risk_section :: "SRPAnalyzer \<Rightarrow> block" where
  "generate_risk_section self =
     RiskSection
       (map (\<lambda>(r, st).
               (RiskLevel_value r,
                (case map_of risk_labels (RiskLevel_value r) of
                   None \<Rightarrow> ''Inconnu'' | Some l \<Rightarrow> l),
                s_count st, s_total_value st))
          (by_risk_level (self_analysis self)))"

definition generate_issuers_section :: "SRPAnalyzer \<Rightarrow> block" where
  "generate_issuers_section self =
     IssuersSection
       (map (\<lambda>e. (i_issuer e, i_count e, i_total_value e, i_average_value e))
          (take 10 (top_issuers (self_analysis self))))"

definition generate_html_report :: "SRPAnalyzer \<Rightarrow> datetime \<Rightarrow> block list" where
  "generate_html_report self now =
     (let an = self_analysis self
      in [Header now,
          GeneralStats (total_products an) (total_value an) (average_nominal_value an)]
         @ (if by_country an \<noteq> [] then [generate_country_section self] else [])
         @ (if by_currency an \<noteq> [] then [generate_currency_section self] else [])
         @ (if by_risk_level an \<noteq> [] then [generate_risk_section self] else [])
         @ (if top_issuers an \<noteq> [] then [generate_issuers_section self] else [])
         @ [Footer])"

definition generate_report :: "SRPAnalyzer \<Rightarrow> datetime \<Rightarrow> block list" where
  "generate_report self now =
     (if total_products (self_analysis self) = 0 then [NoData]
      else generate_html_report self now)"

section \<open>Test data\<close>

text \<open>The two products of \<^verbatim>\<open>tests/test_srp.py\<close> (\<^verbatim>\<open>test_analyze_products\<close>), the keyword
  arguments that build the first one, and the collections made of them.\<close>

definition raw1 :: RawProduct where
  "raw1 =
     \<lparr> raw_product_id = Some ''TEST_001'', raw_product_name = Some ''Test Product 1'',
       raw_issuer = Some ''Test Bank A'', raw_country = Some ''FR'', raw_currency = Some ''EUR'',
       raw_issue_date = Some (Date 2024 8 15), raw_maturity_date = None,
       raw_nominal_value = Some (Fin 10000), raw_coupon_rate = None,
       raw_product_type = Some ''bond'', raw_underlying_asset = None,
       raw_risk_level = Some ''3'', raw_rating = None, raw_isin = None, raw_cusip = None,
       raw_min_investment = None, raw_max_investment = None, raw_liquidity = None,
       raw_fees = None, raw_created_at = None, raw_updated_at = None \<rparr>"

definition product1 :: SRPProduct where
  "product1 =
     \<lparr> product_id = ''TEST_001'', product_name = ''Test Product 1'', issuer = ''Test Bank A'',
       country = FRANCE, currency = EUR, issue_date = Date 2024 8 15, maturity_date = None,
       nominal_value = Fin 10000, coupon_rate = None, product_type = BOND,
       underlying_asset = None, risk_level = MEDIUM, rating = None, isin = None,
       cusip = None, min_investment = None, max_investment = None, liquidity = None,
       fees = None, created_at = 0, updated_at = 0 \<rparr>"

definition product2 :: SRPProduct where
  "product2 =
     \<lparr> product_id = ''TEST_002'', product_name = ''Test Product 2'', issuer = ''Test Bank B'',
       country = BELGIUM, currency = USD, issue_date = Date 2024 8 16, maturity_date = None,
       nominal_value = Fin 15000, coupon_rate = None, product_type = NOTE,
       underlying_asset = None, risk_level = LOW, rating = None, isin = None,
       cusip = None, min_investment = None, max_investment = None, liquidity = None,
       fees = None, created_at = 0, updated_at = 0 \<rparr>"

definition list1 :: SRPProductList where
  "list1 = add_product SRPProductList_init product1"

definition list2 :: SRPProductList where
  "list2 = add_product SRPProductList_init product2"

definition list12 :: SRPProductList where
  "list12 = add_product (add_product SRPProductList_init product1) product2"

text \<open>The first product with \<^verbatim>\<open>nominal_value = nan\<close> (a record that construction
  accepts), and a collection that holds it.\<close>

definition product_nan :: SRPProduct where
  "product_nan = product1\<lparr> nominal_value := NaN \<rparr>"

definition list_nan :: SRPProductList where
  "list_nan = add_product (add_product SRPProductList_init product_nan) product2"

text \<open>A third product, of the issuer \<^verbatim>\<open>CREDIT AGRICOLE\<close> written with the capital E
  acute (code point 201), and the collection of the three products.\<close>

definition product3 :: SRPProduct where
  "product3 = product1\<lparr> product_id := ''TEST_003'', product_name := ''Test Product 3'',
       issuer := ''CR'' @ [CHR 0xC9] @ ''DIT AGRICOLE'', nominal_value := Fin 20000 \<rparr>"

definition list123 :: SRPProductList where
  "list123 = add_product list12 product3"

section \<open>Closed forms of the analysis steps\<close>

text \<open>
  No division of the analysis can raise: every divisor is the length of a list that
  was tested to be non-empty, or a counter that was incremented.  Each step is
  therefore a plain update of one field of \<^verbatim>\<open>self.analysis\<close>.  The definitions of
  this section name those updates; the lemmas of the next section prove that the
  source's functions compute them.
\<close>

text \<open>The collection that a call analyses: \<^verbatim>\<open>products or self.products\<close>.\<close>

definition effective :: "SRPAnalyzer \<Rightarrow> SRPProductList option \<Rightarrow> SRPProductList" where
  "effective self ps = (case ps of None \<Rightarrow> self_products self | Some p \<Rightarrow> p)"

text \<open>One turn of each of the four breakdown loops, as an update of the dictionary.
  \<open>projr\<close> reads the bundle out of the result of the source's function, which is
  an \<open>Inr\<close> for a partition that is not empty.\<close>

definition country_upd :: "SRPProduct list \<Rightarrow> (Country \<times> Stats) list \<Rightarrow> Country \<Rightarrow> (Country \<times> Stats) list" where
  "country_upd ps bc c =
     (let cps = filter (\<lambda>p. country p = c) ps
      in if cps \<noteq> [] then AList.update c (projr (country_stats cps)) bc else bc)"

definition currency_upd :: "SRPProduct list \<Rightarrow> (Currency \<times> Stats) list \<Rightarrow> Currency \<Rightarrow> (Currency \<times> Stats) list" where
  "currency_upd ps bc c =
     (let cps = filter (\<lambda>p. currency p = c) ps
      in if cps \<noteq> [] then AList.update c (projr (currency_stats cps)) bc else bc)"

definition risk_upd :: "SRPProduct list \<Rightarrow> (RiskLevel \<times> Stats) list \<Rightarrow> RiskLevel \<Rightarrow> (RiskLevel \<times> Stats) list" where
  "risk_upd ps bc c =
     (let cps = filter (\<lambda>p. risk_level p = c) ps
      in if cps \<noteq> [] then AList.update c (projr (risk_stats cps)) bc else bc)"

definition type_upd :: "SRPProduct list \<Rightarrow> (ProductType \<times> Stats) list \<Rightarrow> ProductType \<Rightarrow> (ProductType \<times> Stats) list" where
  "type_upd ps bc c =
     (let cps = filter (\<lambda>p. product_type p = c) ps
      in if cps \<noteq> [] then AList.update c (projr (type_stats cps)) bc else bc)"

text \<open>
  The issuer loop.  \<open>first_seen\<close> lists the distinct elements of a list in order of
  first occurrence: the key order of a dict filled in one pass.  \<open>group_acc\<close> is the
  accumulator of a group of records after the pass, \<open>issuer_entry\<close> the entry made
  from a key and its accumulator, \<open>entry_of l i\<close> the entry of issuer \<open>i\<close> in
  collection \<open>l\<close>, and \<open>ranking\<close> the sorted list, \<^verbatim>\<open>top_issuers\<close> before it is
  cut to ten.  \<open>strict_order\<close> is what the sort needs to know about \<^verbatim>\<open><\<close>.
\<close>

definition first_seen :: "'a list \<Rightarrow> 'a list" where
  "first_seen xs = rev (remdups (rev xs))"

definition group_acc :: "SRPProduct list \<Rightarrow> IssuerAcc" where
  "group_acc g =
     \<lparr> a_count = length g,
       a_total_value = py_sum (map nominal_value g),
       a_countries = set (map (\<lambda>p. Country_value (country p)) g),
       a_currencies = set (map (\<lambda>p. Currency_value (currency p)) g),
       a_product_types = set (map (\<lambda>p. ProductType_value (product_type p)) g) \<rparr>"

definition issuer_entry :: "string \<times> IssuerAcc \<Rightarrow> IssuerStats" where
  "issuer_entry e =
     \<lparr> i_issuer = fst e, i_count = a_count (snd e), i_total_value = a_total_value (snd e),
       i_average_value = fdiv (a_total_value (snd e)) (a_count (snd e)),
       i_countries = a_countries (snd e), i_currencies = a_currencies (snd e),
       i_product_types = a_product_types (snd e) \<rparr>"

definition entry_of :: "SRPProduct list \<Rightarrow> string \<Rightarrow> IssuerStats" where
  "entry_of l i = issuer_entry (i, group_acc (filter (\<lambda>p. issuer p = i) l))"

definition ranking :: "SRPProduct list \<Rightarrow> IssuerStats list" where
  "ranking l = sort_reverse flt i_total_value (map issuer_entry (issuer_stats l))"

definition strict_order :: "('k \<Rightarrow> 'k \<Rightarrow> bool) \<Rightarrow> bool" where
  "strict_order lt = ((\<forall>x. \<not> lt x x) \<and> (\<forall>x y z. lt x y \<longrightarrow> lt y z \<longrightarrow> lt x z))"

text \<open>The monthly loop: the entry made from an accumulator, and one turn of the loop
  that stores the entries.\<close>

definition month_entry :: "MonthAcc \<Rightarrow> MonthStats" where
  "month_entry a =
     \<lparr> ms_count = m_count a, ms_total_value = m_total_value a,
       ms_average_value = (if m_count a > 0 then fdiv (m_total_value a) (m_count a) else Fin 0),
       ms_countries = m_countries a, ms_currencies = m_currencies a \<rparr>"

definition month_upd :: "(string \<times> MonthStats) list \<Rightarrow> string \<times> MonthAcc \<Rightarrow> (string \<times> MonthStats) list" where
  "month_upd me e = AList.update (fst e) (month_entry (snd e)) me"

text \<open>The result of a whole analysis of the records \<open>l\<close>, started from the result
  \<open>a\<close> that the analyzer held before.\<close>

definition full_analysis :: "SRPProduct list \<Rightarrow> SRPAnalysis \<Rightarrow> SRPAnalysis" where
  "full_analysis l a =
     a\<lparr> total_products := int (length l),
        total_value := py_sum (map nominal_value l),
        average_nominal_value := fdiv (py_sum (map nominal_value l)) (length l),
        by_country := foldl (country_upd l) (by_country a) all_Country,
        by_currency := foldl (currency_upd l) (by_currency a) all_Currency,
        by_risk_level := foldl (risk_upd l) (by_risk_level a) all_RiskLevel,
        by_product_type := foldl (type_upd l) (by_product_type a) all_ProductType,
        top_issuers := take 10 (sort_reverse flt i_total_value (map issuer_entry (issuer_stats l))),
        monthly_evolution := foldl month_upd (monthly_evolution a) (monthly_stats l) \<rparr>"

section \<open>The filter as the specification words it\<close>

text \<open>
  The specification describes \<^verbatim>\<open>get_filtered_products\<close> as one predicate: the
  conjunction of the supplied conditions (country, currency, product type and risk level
  equal to the value given; nominal value at least, at most the bound given; issuer
  containing the string given, letter case ignored), a key that is absent imposing
  nothing.  \<open>matches\<close> is that predicate, \<open>filter_keys\<close> the keys the code reads, and
  \<open>well_typed\<close> says that the bounds given are numbers and the issuer given is a
  string.
\<close>

definition filter_keys :: "string set" where
  "filter_keys = {''country'', ''currency'', ''product_type'', ''risk_level'',
                  ''min_nominal_value'', ''max_nominal_value'', ''issuer''}"

definition matches :: "(string \<rightharpoonup> pyval) \<Rightarrow> SRPProduct \<Rightarrow> bool" where
  "matches f p =
     ((case f ''country'' of None \<Rightarrow> True | Some v \<Rightarrow> eq_str (Country_value (country p)) v)
    \<and> (case f ''currency'' of None \<Rightarrow> True | Some v \<Rightarrow> eq_str (Currency_value (currency p)) v)
    \<and> (case f ''product_type'' of
          None \<Rightarrow> True | Some v \<Rightarrow> eq_str (ProductType_value (product_type p)) v)
    \<and> (case f ''risk_level'' of
          None \<Rightarrow> True | Some v \<Rightarrow> eq_str (RiskLevel_value (risk_level p)) v)
    \<and> (case f ''min_nominal_value'' of
          None \<Rightarrow> True | Some (VNum b) \<Rightarrow> fge (nominal_value p) b | Some (VStr t) \<Rightarrow> False)
    \<and> (case f ''max_nominal_value'' of
          None \<Rightarrow> True | Some (VNum b) \<Rightarrow> fle (nominal_value p) b | Some (VStr t) \<Rightarrow> False)
    \<and> (case f ''issuer'' of
          None \<Rightarrow> True
        | Some (VStr t) \<Rightarrow> sublist (str_lower t) (str_lower (issuer p))
        | Some (VNum x) \<Rightarrow> False))"

definition well_typed :: "(string \<rightharpoonup> pyval) \<Rightarrow> bool" where
  "well_typed f =
     ((case f ''min_nominal_value'' of Some (VStr t) \<Rightarrow> False | _ \<Rightarrow> True)
    \<and> (case f ''max_nominal_value'' of Some (VStr t) \<Rightarrow> False | _ \<Rightarrow> True)
    \<and> (case f ''issuer'' of Some (VNum x) \<Rightarrow> False | _ \<Rightarrow> True))"

section \<open>Properties of the building blocks\<close>

subsection \<open>Errors, sums and comparisons\<close>

lemmas truediv_eq = truediv_def

lemma bind_err_simps [simp]:
  "bind_err (Inr x) f = f x" "bind_err (Inl e) f = Inl e"
  by (simp_all add: bind_err_def)

lemma py_sum_snoc: "py_sum (xs @ [x]) = fadd (py_sum xs) x"
  by (simp add: py_sum_def)

lemma py_sum_Nil [simp]: "py_sum [] = Fin 0"
  by (simp add: py_sum_def)

lemma fadd_valid:
  assumes "a = PInf \<or> (\<exists>r\<ge>0. a = Fin r)" "fgt b (Fin 0)"
  shows "fadd a b = PInf \<or> (\<exists>r\<ge>0. fadd a b = Fin r)"
  using assms by (cases a; cases b) (auto simp: fgt_def)

lemma py_sum_valid:
  "\<forall>x\<in>set xs. fgt x (Fin 0) \<Longrightarrow> py_sum xs = PInf \<or> (\<exists>r\<ge>0. py_sum xs = Fin r)"
proof (induction xs rule: rev_induct)
  case Nil
  show ?case by simp
next
  case (snoc x xs)
  then show ?case
    using fadd_valid [of "py_sum xs" x] by (simp add: py_sum_snoc)
qed

lemma py_sum_not_nan: "\<forall>x\<in>set xs. fgt x (Fin 0) \<Longrightarrow> py_sum xs \<noteq> NaN"
  using py_sum_valid [of xs] by auto

lemma not_flt_fge: "a \<noteq> NaN \<Longrightarrow> b \<noteq> NaN \<Longrightarrow> \<not> flt a b \<Longrightarrow> fge a b"
  by (cases a; cases b) (auto simp: fge_def fle_def)

lemma flt_strict_order: "strict_order flt"
proof -
  have "\<not> flt x x" for x by (cases x) simp_all
  moreover have "flt x z" if "flt x y" "flt y z" for x y z
    using that by (cases x; cases y; cases z) simp_all
  ultimately show ?thesis unfolding strict_order_def by blast
qed

subsection \<open>The sort\<close>

text \<open>The sort returns a permutation; where \<^verbatim>\<open><\<close> is a strict order the result is
  ordered and keeps elements with equal keys in their original order.\<close>

lemma set_insort_lt [simp]: "set (insort_lt lt key x ys) = insert x (set ys)"
  by (induction ys) auto

lemma length_insort_lt [simp]: "length (insort_lt lt key x ys) = Suc (length ys)"
  by (induction ys) auto

lemma distinct_insort_lt: "distinct (insort_lt lt key x ys) = (x \<notin> set ys \<and> distinct ys)"
  by (induction ys) auto

lemma sort_lt_snoc: "sort_lt lt key (xs @ [x]) = insort_lt lt key x (sort_lt lt key xs)"
  by (simp add: sort_lt_def)

lemma sort_lt_Nil [simp]: "sort_lt lt key [] = []"
  by (simp add: sort_lt_def)

lemma set_sort_lt [simp]: "set (sort_lt lt key xs) = set xs"
  by (induction xs rule: rev_induct) (simp_all add: sort_lt_snoc)

lemma length_sort_lt [simp]: "length (sort_lt lt key xs) = length xs"
  by (induction xs rule: rev_induct) (simp_all add: sort_lt_snoc)

lemma distinct_sort_lt [simp]: "distinct (sort_lt lt key xs) = distinct xs"
  by (induction xs rule: rev_induct) (auto simp: sort_lt_snoc distinct_insort_lt)

lemma sorted_insort_lt:
  assumes "strict_order lt" "sorted_wrt (\<lambda>a b. \<not> lt (key b) (key a)) ys"
  shows "sorted_wrt (\<lambda>a b. \<not> lt (key b) (key a)) (insort_lt lt key x ys)"
  using assms(2)
proof (induction ys)
  case Nil
  show ?case by simp
next
  case (Cons y ys)
  show ?case
  proof (cases "lt (key x) (key y)")
    case True
    have "\<not> lt (key z) (key x)" if "z \<in> set (y # ys)" for z
    proof
      assume zx: "lt (key z) (key x)"
      with True have "lt (key z) (key y)" using assms(1) unfolding strict_order_def by blast
      moreover have "\<not> lt (key z) (key y)"
        using that Cons.prems assms(1) unfolding strict_order_def by auto
      ultimately show False by blast
    qed
    with True Cons.prems show ?thesis by simp
  next
    case False
    with Cons show ?thesis by auto
  qed
qed

lemma sorted_sort_lt:
  "strict_order lt \<Longrightarrow> sorted_wrt (\<lambda>a b. \<not> lt (key b) (key a)) (sort_lt lt key xs)"
  by (induction xs rule: rev_induct) (simp_all add: sort_lt_snoc sorted_insort_lt)

lemma filter_insort_lt:
  assumes "strict_order lt" "sorted_wrt (\<lambda>a b. \<not> lt (key b) (key a)) ys"
  shows "filter (\<lambda>e. key e = k) (insort_lt lt key x ys)
           = filter (\<lambda>e. key e = k) ys @ (if key x = k then [x] else [])"
  using assms(2)
proof (induction ys)
  case Nil
  show ?case by simp
next
  case (Cons y ys)
  show ?case
  proof (cases "lt (key x) (key y)")
    case True
    have "key z \<noteq> key x" if "z \<in> set (y # ys)" for z
    proof
      assume eq: "key z = key x"
      have "\<not> lt (key z) (key y)"
        using that Cons.prems assms(1) unfolding strict_order_def by auto
      with eq True show False by simp
    qed
    then have "filter (\<lambda>e. key e = key x) (y # ys) = []"
      unfolding filter_empty_conv by blast
    with True show ?thesis by auto
  next
    case False
    with Cons show ?thesis by auto
  qed
qed

lemma filter_sort_lt:
  "strict_order lt \<Longrightarrow>
   filter (\<lambda>e. key e = k) (sort_lt lt key xs) = filter (\<lambda>e. key e = k) xs"
  by (induction xs rule: rev_induct)
     (simp_all add: sort_lt_snoc filter_insort_lt sorted_sort_lt)

lemma set_sort_reverse [simp]: "set (sort_reverse lt key xs) = set xs"
  by (simp add: sort_reverse_def)

lemma length_sort_reverse [simp]: "length (sort_reverse lt key xs) = length xs"
  by (simp add: sort_reverse_def)

lemma distinct_sort_reverse [simp]: "distinct (sort_reverse lt key xs) = distinct xs"
  by (simp add: sort_reverse_def)

lemma distinct_key_sort_reverse:
  "distinct (map f (sort_reverse lt key xs)) = distinct (map f xs)"
  by (simp add: distinct_map)

lemma sorted_sort_reverse:
  "strict_order lt \<Longrightarrow> sorted_wrt (\<lambda>a b. \<not> lt (key a) (key b)) (sort_reverse lt key xs)"
  by (simp add: sort_reverse_def sorted_wrt_rev sorted_sort_lt)

lemma filter_sort_reverse:
  "strict_order lt \<Longrightarrow>
   filter (\<lambda>e. key e = k) (sort_reverse lt key xs) = filter (\<lambda>e. key e = k) xs"
  by (simp add: sort_reverse_def rev_filter [symmetric] filter_sort_lt)

lemma sorted_wrt_by_key:
  "(\<And>k. sorted_wrt R (filter (\<lambda>e. key e = k) ys)) \<Longrightarrow>
   sorted_wrt (\<lambda>x y. key x = key y \<longrightarrow> R x y) ys"
proof (induction ys)
  case Nil
  show ?case by simp
next
  case (Cons y ys)
  have tail: "sorted_wrt R (filter (\<lambda>e. key e = k) ys)" for k
    using Cons.prems [of k] by (cases "key y = k") simp_all
  have "R y z" if "z \<in> set ys" "key y = key z" for z
    using Cons.prems [of "key y"] that by auto
  with Cons.IH [OF tail] show ?case by auto
qed

lemma sort_reverse_stable:
  assumes "strict_order lt" "sorted_wrt R xs"
  shows "sorted_wrt (\<lambda>x y. key x = key y \<longrightarrow> R x y) (sort_reverse lt key xs)"
proof (rule sorted_wrt_by_key)
  fix k
  show "sorted_wrt R (filter (\<lambda>e. key e = k) (sort_reverse lt key xs))"
    using assms by (simp add: filter_sort_reverse sorted_wrt_filter)
qed

subsection \<open>Dictionaries filled in one pass\<close>

lemma first_seen_snoc:
  "first_seen (xs @ [x]) = (if x \<in> set xs then first_seen xs else first_seen xs @ [x])"
  by (simp add: first_seen_def)

lemma first_seen_set [simp]: "set (first_seen xs) = set xs"
  by (simp add: first_seen_def)

lemma first_seen_distinct [simp]: "distinct (first_seen xs)"
  by (simp add: first_seen_def)

lemma first_seen_Nil [simp]: "first_seen [] = []"
  by (simp add: first_seen_def)

lemma first_index_order:
  "sorted_wrt (\<lambda>a b. length (takeWhile (\<lambda>y. y \<noteq> a) xs) < length (takeWhile (\<lambda>y. y \<noteq> b) xs))
     (rev (remdups (rev xs)))"
proof (induction xs rule: rev_induct)
  case Nil
  show ?case by simp
next
  case (snoc x xs)
  have keep: "takeWhile (\<lambda>y. y \<noteq> a) (xs @ [x]) = takeWhile (\<lambda>y. y \<noteq> a) xs" if "a \<in> set xs" for a
    using that by (simp add: takeWhile_append1)
  have lt: "length (takeWhile (\<lambda>y. y \<noteq> a) xs) < length xs" if "a \<in> set xs" for a
    using that by (induction xs) auto
  have old: "sorted_wrt (\<lambda>a b. length (takeWhile (\<lambda>y. y \<noteq> a) (xs @ [x]))
                < length (takeWhile (\<lambda>y. y \<noteq> b) (xs @ [x]))) (rev (remdups (rev xs)))"
    using snoc.IH
    by (rule sorted_wrt_mono_rel [rotated]) (simp add: keep)
  show ?case
  proof (cases "x \<in> set xs")
    case True
    with old show ?thesis by simp
  next
    case False
    then have "takeWhile (\<lambda>y. y \<noteq> x) (xs @ [x]) = xs"
      by (induction xs) auto
    with False old show ?thesis
      by (auto simp: sorted_wrt_append keep lt)
  qed
qed

lemma update_tabulate_in:
  "k \<in> set ks \<Longrightarrow> distinct ks \<Longrightarrow>
   AList.update k v (map (\<lambda>i. (i, f i)) ks) = map (\<lambda>i. (i, if i = k then v else f i)) ks"
  by (induction ks) auto

lemma update_tabulate_notin:
  "k \<notin> set ks \<Longrightarrow> AList.update k v (map (\<lambda>i. (i, f i)) ks) = map (\<lambda>i. (i, f i)) ks @ [(k, v)]"
  by (induction ks) auto

lemma map_of_tabulate:
  "map_of (map (\<lambda>i. (i, f i)) ks) k = (if k \<in> set ks then Some (f k) else None)"
  by (induction ks) auto

lemma filter_key_empty: "k \<notin> set (map f ps) \<Longrightarrow> filter (\<lambda>q. f q = k) ps = []"
  by (induction ps) auto

lemma map_of_counter_add:
  "map_of (counter_add x c) k =
     (if k = x then Some (case map_of c x of None \<Rightarrow> 1 | Some n \<Rightarrow> n + 1) else map_of c k)"
  by (induction c rule: counter_add.induct) auto

lemma Counter_snoc: "Counter (xs @ [x]) = counter_add x (Counter xs)"
  by (simp add: Counter_def)

lemma map_of_Counter:
  "map_of (Counter xs) k = (if k \<in> set xs then Some (count_list xs k) else None)"
proof (induction xs rule: rev_induct)
  case Nil
  show ?case by (simp add: Counter_def)
next
  case (snoc x xs)
  then show ?case
    by (auto simp: Counter_snoc map_of_counter_add)
qed

lemma map_of_foldl_upd:
  assumes "\<And>bc c. upd bc c = (if ne c then AList.update c (val c) bc else bc)"
  shows "map_of (foldl upd bc cs) k =
           (if k \<in> set cs \<and> ne k then Some (val k) else map_of bc k)"
proof (induction cs arbitrary: bc)
  case Nil
  show ?case by simp
next
  case (Cons c cs)
  show ?case
    unfolding foldl_Cons Cons.IH
    by (auto simp: assms update_conv')
qed

subsection \<open>The steps of the analysis\<close>

text \<open>Each step returns, and is the update named in the previous section; so is the
  whole analysis of a collection that is not empty.\<close>

lemma set_analysis_simps [simp]:
  "self_products (set_analysis s f) = self_products s"
  "self_analysis (set_analysis s f) = f (self_analysis s)"
  by (simp_all add: set_analysis_def)

lemma set_analysis_twice [simp]:
  "set_analysis (set_analysis s f) g = set_analysis s (\<lambda>a. g (f a))"
  by (simp add: set_analysis_def)

lemma effective_Some [simp]: "effective self (Some pl) = pl"
  by (simp add: effective_def)

lemma country_stats_Inr: "cps \<noteq> [] \<Longrightarrow> country_stats cps = Inr (projr (country_stats cps))"
  by (simp add: country_stats_def truediv_eq)

lemma country_loop_closed:
  "country_loop cs s =
     Inr (set_analysis s (\<lambda>a. a\<lparr> by_country :=
            foldl (country_upd (products (self_products s))) (by_country a) cs \<rparr>))"
proof (induction cs arbitrary: s)
  case Nil
  show ?case by (simp add: set_analysis_def)
next
  case (Cons c cs)
  let ?cps = "filter (\<lambda>p. country p = c) (products (self_products s))"
  show ?case
  proof (cases "?cps = []")
    case True
    then have "country_upd (products (self_products s)) bc c = bc" for bc
      by (simp add: country_upd_def)
    with True show ?thesis using Cons.IH [of s] by simp
  next
    case False
    then have "country_upd (products (self_products s)) bc c
                 = AList.update c (projr (country_stats ?cps)) bc" for bc
      by (simp add: country_upd_def)
    moreover obtain st where st: "country_stats ?cps = Inr st"
      using country_stats_Inr [OF False] by blast
    ultimately show ?thesis
      using False Cons.IH by simp
  qed
qed

lemma currency_stats_Inr: "cps \<noteq> [] \<Longrightarrow> currency_stats cps = Inr (projr (currency_stats cps))"
  by (simp add: currency_stats_def truediv_eq )

lemma currency_loop_closed:
  "currency_loop cs s =
     Inr (set_analysis s (\<lambda>a. a\<lparr> by_currency :=
            foldl (currency_upd (products (self_products s))) (by_currency a) cs \<rparr>))"
proof (induction cs arbitrary: s)
  case Nil
  show ?case by (simp add: set_analysis_def)
next
  case (Cons c cs)
  let ?cps = "filter (\<lambda>p. currency p = c) (products (self_products s))"
  show ?case
  proof (cases "?cps = []")
    case True
    then have "currency_upd (products (self_products s)) bc c = bc" for bc
      by (simp add: currency_upd_def)
    with True show ?thesis using Cons.IH [of s] by simp
  next
    case False
    then have "currency_upd (products (self_products s)) bc c
                 = AList.update c (projr (currency_stats ?cps)) bc" for bc
      by (simp add: currency_upd_def)
    moreover obtain st where st: "currency_stats ?cps = Inr st"
      using currency_stats_Inr [OF False] by blast
    ultimately show ?thesis
      using False Cons.IH by simp
  qed
qed

lemma risk_stats_Inr: "cps \<noteq> [] \<Longrightarrow> risk_stats cps = Inr (projr (risk_stats cps))"
  by (simp add: risk_stats_def truediv_eq )

lemma risk_loop_closed:
  "risk_loop cs s =
     Inr (set_analysis s (\<lambda>a. a\<lparr> by_risk_level :=
            foldl (risk_upd (products (self_products s))) (by_risk_level a) cs \<rparr>))"
proof (induction cs arbitrary: s)
  case Nil
  show ?case by (simp add: set_analysis_def)
next
  case (Cons c cs)
  let ?cps = "filter (\<lambda>p. risk_level p = c) (products (self_products s))"
  show ?case
  proof (cases "?cps = []")
    case True
    then have "risk_upd (products (self_products s)) bc c = bc" for bc
      by (simp add: risk_upd_def)
    with True show ?thesis using Cons.IH [of s] by simp
  next
    case False
    then have "risk_upd (products (self_products s)) bc c
                 = AList.update c (projr (risk_stats ?cps)) bc" for bc
      by (simp add: risk_upd_def)
    moreover obtain st where st: "risk_stats ?cps = Inr st"
      using risk_stats_Inr [OF False] by blast
    ultimately show ?thesis
      using False Cons.IH by simp
  qed
qed

lemma type_stats_Inr: "cps \<noteq> [] \<Longrightarrow> type_stats cps = Inr (projr (type_stats cps))"
  by (simp add: type_stats_def truediv_eq calculate_average_coupon_def Let_def)

lemma type_loop_closed:
  "type_loop cs s =
     Inr (set_analysis s (\<lambda>a. a\<lparr> by_product_type :=
            foldl (type_upd (products (self_products s))) (by_product_type a) cs \<rparr>))"
proof (induction cs arbitrary: s)
  case Nil
  show ?case by (simp add: set_analysis_def)
next
  case (Cons c cs)
  let ?cps = "filter (\<lambda>p. product_type p = c) (products (self_products s))"
  show ?case
  proof (cases "?cps = []")
    case True
    then have "type_upd (products (self_products s)) bc c = bc" for bc
      by (simp add: type_upd_def)
    with True show ?thesis using Cons.IH [of s] by simp
  next
    case False
    then have "type_upd (products (self_products s)) bc c
                 = AList.update c (projr (type_stats ?cps)) bc" for bc
      by (simp add: type_upd_def)
    moreover obtain st where st: "type_stats ?cps = Inr st"
      using type_stats_Inr [OF False] by blast
    ultimately show ?thesis
      using False Cons.IH by simp
  qed
qed

lemma group_acc_Nil: "group_acc [] = IssuerAcc_default"
  by (simp add: group_acc_def IssuerAcc_default_def)

lemma issuer_stats_closed:
  "issuer_stats ps =
     map (\<lambda>i. (i, group_acc (filter (\<lambda>p. issuer p = i) ps))) (first_seen (map issuer ps))"
proof (induction ps rule: rev_induct)
  case Nil
  show ?case by (simp add: issuer_stats_def)
next
  case (snoc p ps)
  let ?f = "\<lambda>i. group_acc (filter (\<lambda>q. issuer q = i) ps)"
  let ?ks = "first_seen (map issuer ps)"
  have step: "issuer_stats (ps @ [p]) = issuer_step (issuer_stats ps) p"
    by (simp add: issuer_stats_def)
  have cur: "(case map_of (map (\<lambda>i. (i, ?f i)) ?ks) (issuer p) of
                None \<Rightarrow> IssuerAcc_default | Some a \<Rightarrow> a) = ?f (issuer p)"
  proof (cases "issuer p \<in> set (map issuer ps)")
    case True
    then show ?thesis by (simp add: map_of_tabulate)
  next
    case False
    then have "filter (\<lambda>q. issuer q = issuer p) ps = []"
      by (rule filter_key_empty)
    with False show ?thesis by (simp add: map_of_tabulate group_acc_Nil)
  qed
  have new: "(?f (issuer p))\<lparr> a_count := a_count (?f (issuer p)) + 1,
                 a_total_value := fadd (a_total_value (?f (issuer p))) (nominal_value p),
                 a_countries := insert (Country_value (country p)) (a_countries (?f (issuer p))),
                 a_currencies := insert (Currency_value (currency p)) (a_currencies (?f (issuer p))),
                 a_product_types :=
                   insert (ProductType_value (product_type p)) (a_product_types (?f (issuer p))) \<rparr>
             = group_acc (filter (\<lambda>q. issuer q = issuer p) (ps @ [p]))"
    by (simp add: group_acc_def py_sum_snoc)
  show ?case
  proof (cases "issuer p \<in> set (map issuer ps)")
    case True
    then have "issuer p \<in> set ?ks" by simp
    then show ?thesis
      unfolding step issuer_step_def Let_def snoc.IH cur new
      using True
      by (simp add: update_tabulate_in first_seen_snoc del: filter_append)
        (auto simp: group_acc_def)
  next
    case False
    then have "issuer p \<notin> set ?ks" by simp
    then show ?thesis
      unfolding step issuer_step_def Let_def snoc.IH cur new
      using False
      by (simp add: update_tabulate_notin first_seen_snoc del: filter_append)
        (auto simp: group_acc_def)
  qed
qed

lemma issuer_entries_closed:
  "(\<forall>e \<in> set st. 0 < a_count (snd e)) \<Longrightarrow> issuer_entries st = Inr (map issuer_entry st)"
  by (induction st rule: issuer_entries.induct) (simp_all add: truediv_eq issuer_entry_def)

lemma issuer_stats_counts: "\<forall>e \<in> set (issuer_stats ps). 0 < a_count (snd e)"
proof -
  have "filter (\<lambda>p. issuer p = i) ps \<noteq> []" if "i \<in> set (map issuer ps)" for i
    using that by (auto simp: filter_empty_conv)
  then show ?thesis
    by (auto simp: issuer_stats_closed group_acc_def)
qed

lemma analyze_top_issuers_closed:
  "analyze_top_issuers s =
     Inr (set_analysis s (\<lambda>a. a\<lparr> top_issuers :=
            take 10 (sort_reverse flt i_total_value
                       (map issuer_entry (issuer_stats (products (self_products s))))) \<rparr>))"
  by (simp add: analyze_top_issuers_def issuer_entries_closed [OF issuer_stats_counts])

lemma month_loop_closed:
  "month_loop st s =
     Inr (set_analysis s (\<lambda>a. a\<lparr> monthly_evolution := foldl month_upd (monthly_evolution a) st \<rparr>))"
proof (induction st arbitrary: s)
  case Nil
  show ?case by (simp add: set_analysis_def)
next
  case (Cons e st)
  obtain k a where e: "e = (k, a)" by (cases e)
  show ?case
    unfolding e using Cons.IH
    by (simp add: truediv_eq month_upd_def month_entry_def)
qed

lemma analyze_basic_stats_closed:
  "products (self_products s) \<noteq> [] \<Longrightarrow>
   analyze_basic_stats s =
     Inr (set_analysis s (\<lambda>a. a\<lparr>
            total_products := int (length (products (self_products s))),
            total_value := py_sum (map nominal_value (products (self_products s))),
            average_nominal_value :=
              fdiv (py_sum (map nominal_value (products (self_products s))))
                (length (products (self_products s))) \<rparr>))"
  by (simp add: analyze_basic_stats_def Let_def truediv_eq)

lemma analyze_products_nonempty:
  assumes "products (effective self ps) \<noteq> []"
  shows "analyze_products self ps =
           Inr (full_analysis (products (effective self ps)) (self_analysis self),
                \<lparr> self_products = effective self ps,
                  self_analysis = full_analysis (products (effective self ps)) (self_analysis self) \<rparr>)"
  using assms
  by (simp add: analyze_products_def effective_def Let_def analyze_basic_stats_closed
      analyze_by_country_def analyze_by_currency_def analyze_by_risk_level_def
      analyze_by_product_type_def analyze_temporal_evolution_def
      country_loop_closed currency_loop_closed risk_loop_closed type_loop_closed
      analyze_top_issuers_closed month_loop_closed full_analysis_def set_analysis_def)

lemma analyze_products_empty:
  assumes "products (effective self ps) = []"
  shows "analyze_products self ps =
           Inr (self_analysis self,
                \<lparr> self_products = effective self ps, self_analysis = self_analysis self \<rparr>)"
  using assms by (simp add: analyze_products_def effective_def Let_def)

subsection \<open>Lookups in the breakdowns\<close>

lemma all_Country_complete [simp]: "c \<in> set all_Country"
  by (cases c) (simp_all add: all_Country_def)

lemma all_Currency_complete [simp]: "c \<in> set all_Currency"
  by (cases c) (simp_all add: all_Currency_def)

lemma all_RiskLevel_complete [simp]: "c \<in> set all_RiskLevel"
  by (cases c) (simp_all add: all_RiskLevel_def)

lemma all_ProductType_complete [simp]: "c \<in> set all_ProductType"
  by (cases c) (simp_all add: all_ProductType_def)

lemma map_of_country_upd:
  "map_of (foldl (country_upd ps) bc cs) c =
     (if c \<in> set cs \<and> filter (\<lambda>p. country p = c) ps \<noteq> []
      then Some (projr (country_stats (filter (\<lambda>p. country p = c) ps))) else map_of bc c)"
  by (rule map_of_foldl_upd) (simp add: country_upd_def)

lemma map_of_currency_upd:
  "map_of (foldl (currency_upd ps) bc cs) c =
     (if c \<in> set cs \<and> filter (\<lambda>p. currency p = c) ps \<noteq> []
      then Some (projr (currency_stats (filter (\<lambda>p. currency p = c) ps))) else map_of bc c)"
  by (rule map_of_foldl_upd) (simp add: currency_upd_def)

lemma map_of_risk_upd:
  "map_of (foldl (risk_upd ps) bc cs) c =
     (if c \<in> set cs \<and> filter (\<lambda>p. risk_level p = c) ps \<noteq> []
      then Some (projr (risk_stats (filter (\<lambda>p. risk_level p = c) ps))) else map_of bc c)"
  by (rule map_of_foldl_upd) (simp add: risk_upd_def)

lemma map_of_type_upd:
  "map_of (foldl (type_upd ps) bc cs) c =
     (if c \<in> set cs \<and> filter (\<lambda>p. product_type p = c) ps \<noteq> []
      then Some (projr (type_stats (filter (\<lambda>p. product_type p = c) ps))) else map_of bc c)"
  by (rule map_of_foldl_upd) (simp add: type_upd_def)

lemma country_partition_bundle:
  "(\<forall>c. let g = filter (\<lambda>p. country p = c) l
          in g \<noteq> [] \<longrightarrow>
             (\<exists>st. map_of (by_country (full_analysis l a)) c = Some st
               \<and> s_count st = length g
               \<and> s_total_value st = py_sum (map nominal_value g)
               \<and> truediv (s_total_value st) (s_count st) = Inr (s_average_value st)
               \<and> s_currencies st = Some (set (map (\<lambda>p. Currency_value (currency p)) g))
               \<and> s_product_types st = Some (set (map (\<lambda>p. ProductType_value (product_type p)) g))
               \<and> (\<exists>d. s_risk_distribution st = Some d
               \<and> (\<forall>k. map_of d k =
                     (let rl = map (\<lambda>p. RiskLevel_value (risk_level p)) g
                      in if k \<in> set rl then Some (count_list rl k) else None)))))"
  by (auto simp: Let_def full_analysis_def map_of_country_upd country_stats_def truediv_def
        map_of_Counter )

lemma currency_partition_bundle:
  "(\<forall>c. let g = filter (\<lambda>p. currency p = c) l
          in g \<noteq> [] \<longrightarrow>
             (\<exists>st. map_of (by_currency (full_analysis l a)) c = Some st
               \<and> s_count st = length g
               \<and> s_total_value st = py_sum (map nominal_value g)
               \<and> truediv (s_total_value st) (s_count st) = Inr (s_average_value st)
               \<and> s_countries st = Some (set (map (\<lambda>p. Country_value (country p)) g))
               \<and> s_product_types st = Some (set (map (\<lambda>p. ProductType_value (product_type p)) g))
               \<and> (\<exists>d. s_risk_distribution st = Some d
               \<and> (\<forall>k. map_of d k =
                     (let rl = map (\<lambda>p. RiskLevel_value (risk_level p)) g
                      in if k \<in> set rl then Some (count_list rl k) else None)))))"
  by (auto simp: Let_def full_analysis_def map_of_currency_upd currency_stats_def truediv_def
        map_of_Counter )

lemma risk_partition_bundle:
  "(\<forall>c. let g = filter (\<lambda>p. risk_level p = c) l
          in g \<noteq> [] \<longrightarrow>
             (\<exists>st. map_of (by_risk_level (full_analysis l a)) c = Some st
               \<and> s_count st = length g
               \<and> s_total_value st = py_sum (map nominal_value g)
               \<and> truediv (s_total_value st) (s_count st) = Inr (s_average_value st)
               \<and> s_countries st = Some (set (map (\<lambda>p. Country_value (country p)) g))
               \<and> s_currencies st = Some (set (map (\<lambda>p. Currency_value (currency p)) g))
               \<and> s_product_types st = Some (set (map (\<lambda>p. ProductType_value (product_type p)) g))
               \<and> s_risk_distribution st = None))"
  by (auto simp: Let_def full_analysis_def map_of_risk_upd risk_stats_def truediv_def
        map_of_Counter )

lemma type_partition_bundle:
  "(\<forall>c. let g = filter (\<lambda>p. product_type p = c) l
          in g \<noteq> [] \<longrightarrow>
             (\<exists>st. map_of (by_product_type (full_analysis l a)) c = Some st
               \<and> s_count st = length g
               \<and> s_total_value st = py_sum (map nominal_value g)
               \<and> truediv (s_total_value st) (s_count st) = Inr (s_average_value st)
               \<and> s_countries st = Some (set (map (\<lambda>p. Country_value (country p)) g))
               \<and> s_currencies st = Some (set (map (\<lambda>p. Currency_value (currency p)) g))
               \<and> (\<exists>d. s_risk_distribution st = Some d
               \<and> (\<forall>k. map_of d k =
                     (let rl = map (\<lambda>p. RiskLevel_value (risk_level p)) g
                      in if k \<in> set rl then Some (count_list rl k) else None)))))"
  by (auto simp: Let_def full_analysis_def map_of_type_upd type_stats_def truediv_def
        map_of_Counter calculate_average_coupon_def)

subsection \<open>The issuer ranking\<close>

lemma entries_closed:
  "map issuer_entry (issuer_stats l) = map (entry_of l) (first_seen (map issuer l))"
  by (simp add: issuer_stats_closed entry_of_def comp_def)

lemma issuer_entry_of [simp]: "i_issuer (entry_of l i) = i"
  by (simp add: entry_of_def issuer_entry_def)

lemma total_entry_of:
  "i_total_value (entry_of l i) = py_sum (map nominal_value (filter (\<lambda>p. issuer p = i) l))"
  by (simp add: entry_of_def issuer_entry_def group_acc_def)

lemma top_issuers_full_analysis: "top_issuers (full_analysis l a) = take 10 (ranking l)"
  by (simp add: full_analysis_def ranking_def)

lemma set_ranking: "set (ranking l) = entry_of l ` set (map issuer l)"
  by (simp add: ranking_def entries_closed)

lemma issuers_of_entries: "map i_issuer (map issuer_entry (issuer_stats l)) = first_seen (map issuer l)"
  by (simp add: entries_closed comp_def)

lemma distinct_ranking: "distinct (map i_issuer (ranking l))"
  unfolding ranking_def distinct_key_sort_reverse issuers_of_entries by simp

lemma length_ranking: "length (ranking l) = card (issuer ` set l)"
  using distinct_card [OF first_seen_distinct, of "map issuer l"]
  by (simp add: ranking_def entries_closed)

lemma ranking_not_nan:
  assumes "\<forall>p\<in>set l. fgt (nominal_value p) (Fin 0)" "e \<in> set (ranking l)"
  shows "i_total_value e \<noteq> NaN"
proof -
  from assms(2) obtain i where e: "e = entry_of l i"
    unfolding set_ranking by blast
  have "\<forall>x\<in>set (map nominal_value (filter (\<lambda>p. issuer p = i) l)). fgt x (Fin 0)"
    using assms(1) by auto
  then show ?thesis
    unfolding e total_entry_of by (rule py_sum_not_nan)
qed

lemma ranking_descending:
  assumes "\<forall>p\<in>set l. fgt (nominal_value p) (Fin 0)"
  shows "sorted_wrt (\<lambda>x y. fge (i_total_value x) (i_total_value y)) (ranking l)"
proof (rule sorted_wrt_mono_rel)
  show "sorted_wrt (\<lambda>x y. \<not> flt (i_total_value x) (i_total_value y)) (ranking l)"
    unfolding ranking_def by (rule sorted_sort_reverse [OF flt_strict_order])
next
  fix x y
  assume "x \<in> set (ranking l)" "y \<in> set (ranking l)"
    and "\<not> flt (i_total_value x) (i_total_value y)"
  then show "fge (i_total_value x) (i_total_value y)"
    using ranking_not_nan [OF assms] by (simp add: not_flt_fge)
qed

lemma ranking_ties:
  "sorted_wrt (\<lambda>x y. i_total_value x = i_total_value y \<longrightarrow>
       length (takeWhile (\<lambda>p. issuer p \<noteq> i_issuer x) l)
         < length (takeWhile (\<lambda>p. issuer p \<noteq> i_issuer y) l)) (ranking l)"
proof -
  have tw: "length (takeWhile (\<lambda>p. issuer p \<noteq> i) l)
              = length (takeWhile (\<lambda>y. y \<noteq> i) (map issuer l))" for i
    by (simp add: takeWhile_map comp_def)
  have "sorted_wrt (\<lambda>x y. length (takeWhile (\<lambda>p. issuer p \<noteq> i_issuer x) l)
                         < length (takeWhile (\<lambda>p. issuer p \<noteq> i_issuer y) l))
          (map issuer_entry (issuer_stats l))"
    unfolding entries_closed sorted_wrt_map tw first_seen_def
    using first_index_order [of "map issuer l"] by simp
  then show ?thesis
    unfolding ranking_def by (rule sort_reverse_stable [OF flt_strict_order])
qed

lemma ranking_entry:
  assumes "e \<in> set (ranking l)"
  shows "let g = filter (\<lambda>p. issuer p = i_issuer e) l
         in g \<noteq> [] \<and> i_count e = length g
            \<and> i_total_value e = py_sum (map nominal_value g)
            \<and> truediv (i_total_value e) (i_count e) = Inr (i_average_value e)
            \<and> i_countries e = set (map (\<lambda>p. Country_value (country p)) g)
            \<and> i_currencies e = set (map (\<lambda>p. Currency_value (currency p)) g)
            \<and> i_product_types e = set (map (\<lambda>p. ProductType_value (product_type p)) g)"
proof -
  from assms obtain i where i: "i \<in> set (map issuer l)" and e: "e = entry_of l i"
    unfolding set_ranking by blast
  from i have "filter (\<lambda>p. issuer p = i) l \<noteq> []"
    by (auto simp: filter_empty_conv)
  then show ?thesis
    unfolding e
    by (simp add: Let_def entry_of_def issuer_entry_def group_acc_def truediv_def)
qed

lemma ranking_cut:
  assumes "\<forall>p\<in>set l. fgt (nominal_value p) (Fin 0)"
      and "p \<in> set l" "issuer p \<notin> i_issuer ` set (take n (ranking l))"
      and "e \<in> set (take n (ranking l))"
  shows "fge (i_total_value e)
           (py_sum (map nominal_value (filter (\<lambda>q. issuer q = issuer p) l)))"
proof -
  let ?x = "entry_of l (issuer p)"
  have "?x \<in> set (ranking l)"
    using assms(2) unfolding set_ranking by auto
  then have "?x \<in> set (take n (ranking l)) \<union> set (drop n (ranking l))"
    by (simp add: set_append [symmetric] del: set_append)
  moreover have "?x \<notin> set (take n (ranking l))"
    using assms(3) by (metis image_eqI issuer_entry_of)
  ultimately have "?x \<in> set (drop n (ranking l))" by blast
  moreover have "sorted_wrt (\<lambda>x y. fge (i_total_value x) (i_total_value y))
                   (take n (ranking l) @ drop n (ranking l))"
    using ranking_descending [OF assms(1)] by simp
  ultimately have "fge (i_total_value e) (i_total_value ?x)"
    using assms(4) unfolding sorted_wrt_append by blast
  then show ?thesis by (simp add: total_entry_of)
qed

lemma ranking_tie_cut:
  assumes "p \<in> set l" "issuer p \<notin> i_issuer ` set (take n (ranking l))"
      and "e \<in> set (take n (ranking l))"
      and "i_total_value e = py_sum (map nominal_value (filter (\<lambda>q. issuer q = issuer p) l))"
  shows "length (takeWhile (\<lambda>q. issuer q \<noteq> i_issuer e) l)
           < length (takeWhile (\<lambda>q. issuer q \<noteq> issuer p) l)"
proof -
  let ?x = "entry_of l (issuer p)"
  have "?x \<in> set (ranking l)"
    using assms(1) unfolding set_ranking by auto
  then have "?x \<in> set (take n (ranking l)) \<union> set (drop n (ranking l))"
    by (simp add: set_append [symmetric] del: set_append)
  moreover have "?x \<notin> set (take n (ranking l))"
    using assms(2) by (metis image_eqI issuer_entry_of)
  ultimately have "?x \<in> set (drop n (ranking l))" by blast
  moreover have "sorted_wrt (\<lambda>x y. i_total_value x = i_total_value y \<longrightarrow>
       length (takeWhile (\<lambda>p. issuer p \<noteq> i_issuer x) l)
         < length (takeWhile (\<lambda>p. issuer p \<noteq> i_issuer y) l))
                   (take n (ranking l) @ drop n (ranking l))"
    using ranking_ties [of l] by simp
  ultimately have "i_total_value e = i_total_value ?x \<longrightarrow>
       length (takeWhile (\<lambda>p. issuer p \<noteq> i_issuer e) l)
         < length (takeWhile (\<lambda>p. issuer p \<noteq> i_issuer ?x) l)"
    using assms(3) unfolding sorted_wrt_append by blast
  with assms(4) show ?thesis by (simp add: total_entry_of issuer_entry_of)
qed

subsection \<open>The filter\<close>

text \<open>The seven list comprehensions of \<^verbatim>\<open>get_filtered_products\<close>, one after the other,
  are one filter by the conjunction.\<close>

lemma eq_step:
  "(case fk of None \<Rightarrow> ps | Some v \<Rightarrow> filter (\<lambda>p. eq_str (g p) v) ps)
     = filter (\<lambda>p. case fk of None \<Rightarrow> True | Some v \<Rightarrow> eq_str (g p) v) ps"
  by (cases fk) simp_all

lemma min_step:
  "(case fk of Some (VStr t) \<Rightarrow> False | _ \<Rightarrow> True) \<Longrightarrow>
   (case fk of None \<Rightarrow> Inr ps | Some v \<Rightarrow> filter_min v ps)
     = Inr (filter (\<lambda>p. case fk of None \<Rightarrow> True | Some (VNum b) \<Rightarrow> fge (nominal_value p) b
                          | Some (VStr t) \<Rightarrow> False) ps)"
  by (auto simp: filter_min_def split: option.splits pyval.splits)

lemma max_step:
  "(case fk of Some (VStr t) \<Rightarrow> False | _ \<Rightarrow> True) \<Longrightarrow>
   (case fk of None \<Rightarrow> Inr ps | Some v \<Rightarrow> filter_max v ps)
     = Inr (filter (\<lambda>p. case fk of None \<Rightarrow> True | Some (VNum b) \<Rightarrow> fle (nominal_value p) b
                          | Some (VStr t) \<Rightarrow> False) ps)"
  by (auto simp: filter_max_def split: option.splits pyval.splits)

lemma issuer_step':
  "(case fk of Some (VNum x) \<Rightarrow> False | _ \<Rightarrow> True) \<Longrightarrow>
   (case fk of None \<Rightarrow> Inr ps | Some v \<Rightarrow> filter_issuer v ps)
     = Inr (filter (\<lambda>p. case fk of None \<Rightarrow> True
                          | Some (VStr t) \<Rightarrow> sublist (str_lower t) (str_lower (issuer p))
                          | Some (VNum x) \<Rightarrow> False) ps)"
  by (auto simp: filter_issuer_def split: option.splits pyval.splits)

lemma get_filtered_products_matches:
  assumes "well_typed f"
  shows "get_filtered_products self (Some f)
           = Inr (filter (matches f) (products (self_products self)))"
proof -
  have m1: "case f ''min_nominal_value'' of Some (VStr t) \<Rightarrow> False | _ \<Rightarrow> True"
   and m2: "case f ''max_nominal_value'' of Some (VStr t) \<Rightarrow> False | _ \<Rightarrow> True"
   and m3: "case f ''issuer'' of Some (VNum x) \<Rightarrow> False | _ \<Rightarrow> True"
    using assms unfolding well_typed_def by simp_all
  show ?thesis
    unfolding get_filtered_products_def Let_def option.case eq_step
      min_step [OF m1] bind_err_simps(1) max_step [OF m2] issuer_step' [OF m3] filter_filter
    by (rule arg_cong [where f = Inr], rule filter_cong [OF refl])
       (simp add: matches_def conj_ac)
qed

lemma unknown_key_ignored:
  assumes "k \<notin> filter_keys"
  shows "get_filtered_products self (Some (f(k \<mapsto> v))) = get_filtered_products self (Some f)"
proof -
  have "(f(k \<mapsto> v)) x = f x" if "x \<in> filter_keys" for x
    using assms that by auto
  then have e: "(f(k \<mapsto> v)) ''country'' = f ''country''"
      "(f(k \<mapsto> v)) ''currency'' = f ''currency''"
      "(f(k \<mapsto> v)) ''product_type'' = f ''product_type''"
      "(f(k \<mapsto> v)) ''risk_level'' = f ''risk_level''"
      "(f(k \<mapsto> v)) ''min_nominal_value'' = f ''min_nominal_value''"
      "(f(k \<mapsto> v)) ''max_nominal_value'' = f ''max_nominal_value''"
      "(f(k \<mapsto> v)) ''issuer'' = f ''issuer''"
    by (simp_all add: filter_keys_def)
  show ?thesis
    unfolding get_filtered_products_def Let_def option.case e ..
qed

section \<open>Facts used by the claims\<close>

lemmas init_defs = SRPProduct_init_def Let_def required_def enum_field_def enum_of_value_def
     all_Country_def all_Currency_def all_ProductType_def all_RiskLevel_def validated_def nominal_field_def
     validate_nominal_value_def validate_coupon_rate_def validate_maturity_date_def fle_def fgt_def

lemma products_list1 [simp]: "products list1 = [product1]"
  by (simp add: list1_def add_product_def SRPProductList_init_def Let_def)

lemma products_list2 [simp]: "products list2 = [product2]"
  by (simp add: list2_def add_product_def SRPProductList_init_def Let_def)

lemma products_list12 [simp]: "products list12 = [product1, product2]"
  by (simp add: list12_def add_product_def SRPProductList_init_def Let_def)

lemma products_list123 [simp]: "products list123 = [product1, product2, product3]"
  by (simp add: list123_def add_product_def Let_def)

lemma products_init [simp]: "products SRPProductList_init = []"
  by (simp add: SRPProductList_init_def)

lemma analysis_of_init [simp]: "self_analysis (SRPAnalyzer_init ps) = SRPAnalysis_init"
  by (simp add: SRPAnalyzer_init_def)

lemma upd_keys:
  "map fst (AList.update k v al) = (if k \<in> set (map fst al) then map fst al else map fst al @ [k])"
  by (induction al) auto

lemma SRPProduct_init_fields:
  assumes "SRPProduct_init raw now = Inr p"
  shows "snd (nominal_field (raw_nominal_value raw)) = Some (nominal_value p)"
    and "snd (validated ''coupon_rate'' (validate_coupon_rate (raw_coupon_rate raw)))
           = Some (coupon_rate p)"
    and "snd (required ''issue_date'' (raw_issue_date raw)) = Some (issue_date p)"
    and "snd (validated ''maturity_date''
           (validate_maturity_date (raw_maturity_date raw)
              (snd (required ''issue_date'' (raw_issue_date raw))))) = Some (maturity_date p)"
  using assms unfolding SRPProduct_init_def Let_def
  by (auto split: option.splits)

lemma SRPProduct_init_guarantees:
  assumes "SRPProduct_init raw now = Inr p"
  shows "\<not> fle (nominal_value p) (Fin 0)
     \<and> (\<forall>c. coupon_rate p = Some c \<longrightarrow> \<not> flt c (Fin 0) \<and> \<not> fgt c (Fin 100))
     \<and> (\<forall>m. maturity_date p = Some m \<longrightarrow> \<not> date_le m (issue_date p))"
proof -
  have "\<not> fle (nominal_value p) (Fin 0)"
    using SRPProduct_init_fields(1) [OF assms]
    by (auto simp: nominal_field_def validated_def validate_nominal_value_def
        split: option.splits if_splits)
  moreover have "\<not> flt c (Fin 0) \<and> \<not> fgt c (Fin 100)" if "coupon_rate p = Some c" for c
    using SRPProduct_init_fields(2) [OF assms] that
    by (auto simp: validated_def validate_coupon_rate_def split: option.splits if_splits)
  moreover have "\<not> date_le m (issue_date p)" if "maturity_date p = Some m" for m
    using SRPProduct_init_fields(3,4) [OF assms] that
    by (auto simp: validated_def validate_maturity_date_def required_def
        split: option.splits if_splits)
  ultimately show ?thesis by blast
qed

lemma SRPProduct_init_error:
  "SRPProduct_init raw now = Inl e \<Longrightarrow> \<exists>errs. e = ValidationError errs"
  unfolding SRPProduct_init_def Let_def
  by (auto split: option.splits)

lemma products_list_nan [simp]: "products list_nan = [product_nan, product2]"
  by (simp add: list_nan_def add_product_def SRPProductList_init_def Let_def)

lemma take_short_ranking: "length l \<le> 10 \<Longrightarrow> take 10 (ranking l) = ranking l"
proof -
  have "card (issuer ` set l) \<le> length l"
    by (metis card_image_le card_length le_trans List.finite_set)
  then show "length l \<le> 10 \<Longrightarrow> take 10 (ranking l) = ranking l"
    by (simp add: length_ranking)
qed

lemma ranking_nan:
  "map i_total_value (ranking [product_nan, product2]) = [NaN, Fin 15000]"
  by (simp add: ranking_def issuer_stats_def issuer_step_def IssuerAcc_default_def
      product_nan_def product1_def product2_def issuer_entry_def sort_reverse_def sort_lt_def)

lemma products_of_init [simp]: "self_products (SRPAnalyzer_init (Some pl)) = pl"
  by (simp add: SRPAnalyzer_init_def)
section \<open>Construction of a product record\<close>

text \<open>
  C1.  The claim: construction returns a record with \<^verbatim>\<open>nominal_value > 0\<close>, a coupon rate
  in [0, 100] when there is one and a maturity date after the issue date when there is
  one, or it fails with a validation error.  The validators reject a value when a
  comparison is true (\<^verbatim>\<open>v <= 0\<close>, \<^verbatim>\<open>v < 0 or v > 100\<close>), and every comparison with
  \<^verbatim>\<open>nan\<close> is false: the keyword arguments of the first test product with
  \<^verbatim>\<open>nominal_value=float('nan')\<close> build a record whose nominal value is not greater
  than 0, and with \<^verbatim>\<open>coupon_rate=float('nan')\<close> a record whose coupon rate is not in
  [0, 100].  (\<open>SRPProduct_init_guarantees\<close> is what construction does ensure: the
  rejecting comparisons are false on the record.)
\<close>

theorem nan_passes_the_validators:
  "(\<exists>p. SRPProduct_init (raw1\<lparr> raw_nominal_value := Some NaN \<rparr>) 0 = Inr p
        \<and> nominal_value p = NaN \<and> \<not> fgt (nominal_value p) (Fin 0))
   \<and> (\<exists>p. SRPProduct_init (raw1\<lparr> raw_coupon_rate := Some NaN \<rparr>) 0 = Inr p
        \<and> coupon_rate p = Some NaN \<and> \<not> (fle (Fin 0) NaN \<and> fle NaN (Fin 100)))"
  by (simp add: init_defs raw1_def)

text \<open>
  C2.  The claim: construction fails, naming the field, when \<^verbatim>\<open>product_id\<close>,
  \<^verbatim>\<open>product_name\<close> or \<^verbatim>\<open>issuer\<close> is the empty string.  The three fields are declared
  \<^verbatim>\<open>str = Field(...)\<close> with no length constraint and no validator: with all three
  empty the record is built, and \<^verbatim>\<open>add_product\<close> stores it in a collection.
\<close>

theorem empty_strings_are_accepted:
  "\<exists>p. SRPProduct_init
          (raw1\<lparr> raw_product_id := Some [], raw_product_name := Some [], raw_issuer := Some [] \<rparr>) 0
        = Inr p
       \<and> product_id p = [] \<and> product_name p = [] \<and> issuer p = []
       \<and> products (add_product SRPProductList_init p) = [p]"
  by (simp add: init_defs raw1_def add_product_def SRPProductList_init_def)

section \<open>The analysis\<close>

text \<open>
  On a collection that is not empty, whatever the analyzer did before,
  \<^verbatim>\<open>analyze_products\<close> returns (no division raises) a result whose \<^verbatim>\<open>total_products\<close>
  is the number of records, whose \<^verbatim>\<open>total_value\<close> is the sum of \<^verbatim>\<open>nominal_value\<close> over
  the records, and whose \<^verbatim>\<open>average_nominal_value\<close> is \<^verbatim>\<open>total_value / total_products\<close>.
\<close>

lemma basic_stats_of_nonempty_collection:
  assumes "products pl \<noteq> []"
  shows "\<exists>r self'. analyze_products self (Some pl) = Inr (r, self')
           \<and> total_products r = int (length (products pl))
           \<and> 0 < total_products r
           \<and> total_value r = py_sum (map nominal_value (products pl))
           \<and> truediv (total_value r) (nat (total_products r)) = Inr (average_nominal_value r)"
  using assms by (simp add: analyze_products_nonempty full_analysis_def truediv_eq)

text \<open>
  A collection of no record is never an error: the early return hands back the
  analysis that the analyzer holds, as it stands.  On an analyzer that
  \<^verbatim>\<open>SRPAnalyzer()\<close> has just built this is the initial, zero-valued analysis (what
  \<^verbatim>\<open>test_analyze_empty_products\<close> checks).
\<close>

lemma empty_collection_returns_held_analysis:
  assumes "products pl = []"
  shows "\<exists>self'. analyze_products self (Some pl) = Inr (self_analysis self, self')"
  using assms by (simp add: analyze_products_empty)

lemma empty_collection_on_new_analyzer:
  "\<exists>r self'. analyze_products (SRPAnalyzer_init None) (Some SRPProductList_init) = Inr (r, self')
       \<and> total_products r = 0 \<and> total_value r = Fin 0 \<and> average_nominal_value r = Fin 0
       \<and> by_country r = [] \<and> by_currency r = [] \<and> by_risk_level r = []
       \<and> by_product_type r = [] \<and> top_issuers r = [] \<and> monthly_evolution r = []"
  by (simp add: analyze_products_empty SRPAnalysis_init_def)

text \<open>
  C3.  The claim: for every collection, \<^verbatim>\<open>analyze_products\<close> returns a result whose
  \<^verbatim>\<open>total_products\<close> is the number of records and whose \<^verbatim>\<open>total_value\<close> is the sum of
  \<^verbatim>\<open>nominal_value\<close> over the records.  The code does not do this on an analyzer that is
  used twice: \<^verbatim>\<open>self.analysis\<close> is never reset, so after the analysis of one product
  the analysis of the empty collection returns \<^verbatim>\<open>total_products = 1\<close> and
  \<^verbatim>\<open>total_value = 10000\<close> for a collection of no record, whose sum is 0.
\<close>

theorem stale_basic_stats:
  "\<exists>r1 a1 r2 a2. analyze_products (SRPAnalyzer_init None) (Some list1) = Inr (r1, a1)
     \<and> analyze_products a1 (Some SRPProductList_init) = Inr (r2, a2)
     \<and> total_products r2 = 1 \<and> total_value r2 = Fin 10000
     \<and> int (length (products SRPProductList_init)) = 0
     \<and> py_sum (map nominal_value (products SRPProductList_init)) = Fin 0"
  by (simp add: analyze_products_nonempty analyze_products_empty full_analysis_def
      product1_def py_sum_def)

text \<open>
  The issuer ranking of a collection that is not empty and whose records all have
  \<^verbatim>\<open>nominal_value > 0\<close>, whatever the analyzer did before.  The \<^verbatim>\<open>top_issuers\<close> list
  has one entry per distinct issuer string (compared exactly), at most ten of them; it
  is in descending order of total value; of two entries with the same total, the one
  whose issuer occurs first in the collection comes first; each entry carries the
  count, the total, the mean (total / count) and the distinct countries, currencies and
  product types of the records of its issuer; and the cut to ten keeps the head of the
  ranking: an issuer that is cut has a total not greater than any listed total, and
  where it ties with a listed issuer, the listed one occurs first in the collection.
\<close>

lemma top_issuers_of_nonempty_collection:
  assumes "products pl \<noteq> []"
      and "\<forall>p\<in>set (products pl). fgt (nominal_value p) (Fin 0)"
  shows "\<exists>r self'. analyze_products self (Some pl) = Inr (r, self')
     \<and> length (top_issuers r) = min 10 (card (issuer ` set (products pl)))
     \<and> distinct (map i_issuer (top_issuers r))
     \<and> sorted_wrt (\<lambda>x y. fge (i_total_value x) (i_total_value y)) (top_issuers r)
     \<and> sorted_wrt (\<lambda>x y. i_total_value x = i_total_value y \<longrightarrow>
          length (takeWhile (\<lambda>p. issuer p \<noteq> i_issuer x) (products pl))
            < length (takeWhile (\<lambda>p. issuer p \<noteq> i_issuer y) (products pl))) (top_issuers r)
     \<and> (\<forall>e\<in>set (top_issuers r).
          let g = filter (\<lambda>p. issuer p = i_issuer e) (products pl)
          in g \<noteq> [] \<and> i_count e = length g
             \<and> i_total_value e = py_sum (map nominal_value g)
             \<and> truediv (i_total_value e) (i_count e) = Inr (i_average_value e)
             \<and> i_countries e = set (map (\<lambda>p. Country_value (country p)) g)
             \<and> i_currencies e = set (map (\<lambda>p. Currency_value (currency p)) g)
             \<and> i_product_types e = set (map (\<lambda>p. ProductType_value (product_type p)) g))
     \<and> (\<forall>p\<in>set (products pl). issuer p \<notin> i_issuer ` set (top_issuers r) \<longrightarrow>
          (\<forall>e\<in>set (top_issuers r).
             fge (i_total_value e)
               (py_sum (map nominal_value
                  (filter (\<lambda>q. issuer q = issuer p) (products pl))))
             \<and> (i_total_value e
                  = py_sum (map nominal_value
                      (filter (\<lambda>q. issuer q = issuer p) (products pl))) \<longrightarrow>
                length (takeWhile (\<lambda>q. issuer q \<noteq> i_issuer e) (products pl))
                  < length (takeWhile (\<lambda>q. issuer q \<noteq> issuer p) (products pl)))))"
proof -
  let ?l = "products pl"
  let ?t = "take 10 (ranking ?l)"
  have 1: "length ?t = min 10 (card (issuer ` set ?l))"
    by (simp add: length_ranking min.commute)
  have 2: "distinct (map i_issuer ?t)"
    using distinct_ranking [of ?l] by (simp add: take_map [symmetric] distinct_take)
  have 3: "sorted_wrt (\<lambda>x y. fge (i_total_value x) (i_total_value y)) ?t"
    using ranking_descending [OF assms(2)] by (rule sorted_wrt_take)
  have 4: "sorted_wrt (\<lambda>x y. i_total_value x = i_total_value y \<longrightarrow>
          length (takeWhile (\<lambda>p. issuer p \<noteq> i_issuer x) ?l)
            < length (takeWhile (\<lambda>p. issuer p \<noteq> i_issuer y) ?l)) ?t"
    using ranking_ties [of ?l] by (rule sorted_wrt_take)
  have 5: "\<forall>e\<in>set ?t.
          let g = filter (\<lambda>p. issuer p = i_issuer e) ?l
          in g \<noteq> [] \<and> i_count e = length g
             \<and> i_total_value e = py_sum (map nominal_value g)
             \<and> truediv (i_total_value e) (i_count e) = Inr (i_average_value e)
             \<and> i_countries e = set (map (\<lambda>p. Country_value (country p)) g)
             \<and> i_currencies e = set (map (\<lambda>p. Currency_value (currency p)) g)
             \<and> i_product_types e = set (map (\<lambda>p. ProductType_value (product_type p)) g)"
    using ranking_entry [of _ ?l] set_take_subset [of 10 "ranking ?l"] by blast
  have 6: "\<forall>p\<in>set ?l. issuer p \<notin> i_issuer ` set ?t \<longrightarrow>
          (\<forall>e\<in>set ?t.
             fge (i_total_value e)
               (py_sum (map nominal_value (filter (\<lambda>q. issuer q = issuer p) ?l)))
             \<and> (i_total_value e
                  = py_sum (map nominal_value (filter (\<lambda>q. issuer q = issuer p) ?l)) \<longrightarrow>
                length (takeWhile (\<lambda>q. issuer q \<noteq> i_issuer e) ?l)
                  < length (takeWhile (\<lambda>q. issuer q \<noteq> issuer p) ?l)))"
    using ranking_cut [OF assms(2)] ranking_tie_cut by blast
  from assms(1) 1 2 3 4 5 6 show ?thesis
    by (simp only: analyze_products_nonempty effective_Some top_issuers_full_analysis
        sum.inject prod.inject simp_thms ex_simps)
qed

text \<open>
  C4.  The claim: \<^verbatim>\<open>analyze_products\<close> groups the collection by issuer and produces
  \<^verbatim>\<open>top_issuers\<close> sorted descending by total nominal value.  The code does not do this in
  two cases.  After the analysis of one product, the analysis of the empty collection
  returns the earlier ranking (\<^verbatim>\<open>self.analysis\<close> is never reset), not the ranking of a
  collection without issuers.  And with a \<^verbatim>\<open>nan\<close> nominal value in the collection, which
  the validators let through, the totals are not in descending order
  (\<^verbatim>\<open>nan >= 15000\<close> is false).
\<close>

theorem top_issuers_stale_or_unordered:
  "(\<exists>r1 a1 r2 a2. analyze_products (SRPAnalyzer_init None) (Some list1) = Inr (r1, a1)
       \<and> analyze_products a1 (Some SRPProductList_init) = Inr (r2, a2)
       \<and> products SRPProductList_init = []
       \<and> map i_issuer (top_issuers r2) = [''Test Bank A''])
   \<and> (\<exists>r a. analyze_products (SRPAnalyzer_init None) (Some list_nan) = Inr (r, a)
       \<and> map i_total_value (top_issuers r) = [NaN, Fin 15000]
       \<and> \<not> sorted_wrt (\<lambda>x y. fge (i_total_value x) (i_total_value y)) (top_issuers r))"
proof -
  have a: "map i_issuer (ranking [product1]) = [''Test Bank A'']"
    by (simp add: ranking_def issuer_stats_def issuer_step_def IssuerAcc_default_def
      product1_def issuer_entry_def sort_reverse_def sort_lt_def)
  have b: "\<not> sorted_wrt (\<lambda>x y. fge (i_total_value x) (i_total_value y))
               (ranking [product_nan, product2])"
    using ranking_nan
    by (auto simp: sorted_wrt_map [symmetric, where f = i_total_value and R = fge]
          fge_def fle_def)
  show ?thesis
    using a b ranking_nan
    by (simp add: analyze_products_nonempty analyze_products_empty top_issuers_full_analysis
        take_short_ranking)
qed

text \<open>
  C5.  For every non-empty partition of the collection analysed, by country, currency
  or product type, the bundle stored under the partition's key holds the count, the
  sum and the mean (sum / count) of \<^verbatim>\<open>nominal_value\<close>, the distinct values of the two
  other dimensions among country, currency and product type, and the frequency of each
  risk level.  For every non-empty partition by risk level the bundle holds the count,
  the sum, the mean and the distinct countries, currencies and product types, and no
  risk distribution.  This holds whatever the analyzer did before.
\<close>

theorem partition_statistics:
  "\<exists>r self'. analyze_products self (Some pl) = Inr (r, self')
     \<and> (\<forall>c. let g = filter (\<lambda>p. country p = c) (products pl)
          in g \<noteq> [] \<longrightarrow>
             (\<exists>st. map_of (by_country r) c = Some st
               \<and> s_count st = length g
               \<and> s_total_value st = py_sum (map nominal_value g)
               \<and> truediv (s_total_value st) (s_count st) = Inr (s_average_value st)
               \<and> s_currencies st = Some (set (map (\<lambda>p. Currency_value (currency p)) g))
               \<and> s_product_types st = Some (set (map (\<lambda>p. ProductType_value (product_type p)) g))
               \<and> (\<exists>d. s_risk_distribution st = Some d
               \<and> (\<forall>k. map_of d k =
                     (let rl = map (\<lambda>p. RiskLevel_value (risk_level p)) g
                      in if k \<in> set rl then Some (count_list rl k) else None)))))
     \<and> (\<forall>c. let g = filter (\<lambda>p. currency p = c) (products pl)
          in g \<noteq> [] \<longrightarrow>
             (\<exists>st. map_of (by_currency r) c = Some st
               \<and> s_count st = length g
               \<and> s_total_value st = py_sum (map nominal_value g)
               \<and> truediv (s_total_value st) (s_count st) = Inr (s_average_value st)
               \<and> s_countries st = Some (set (map (\<lambda>p. Country_value (country p)) g))
               \<and> s_product_types st = Some (set (map (\<lambda>p. ProductType_value (product_type p)) g))
               \<and> (\<exists>d. s_risk_distribution st = Some d
               \<and> (\<forall>k. map_of d k =
                     (let rl = map (\<lambda>p. RiskLevel_value (risk_level p)) g
                      in if k \<in> set rl then Some (count_list rl k) else None)))))
     \<and> (\<forall>c. let g = filter (\<lambda>p. risk_level p = c) (products pl)
          in g \<noteq> [] \<longrightarrow>
             (\<exists>st. map_of (by_risk_level r) c = Some st
               \<and> s_count st = length g
               \<and> s_total_value st = py_sum (map nominal_value g)
               \<and> truediv (s_total_value st) (s_count st) = Inr (s_average_value st)
               \<and> s_countries st = Some (set (map (\<lambda>p. Country_value (country p)) g))
               \<and> s_currencies st = Some (set (map (\<lambda>p. Currency_value (currency p)) g))
               \<and> s_product_types st = Some (set (map (\<lambda>p. ProductType_value (product_type p)) g))
               \<and> s_risk_distribution st = None))
     \<and> (\<forall>c. let g = filter (\<lambda>p. product_type p = c) (products pl)
          in g \<noteq> [] \<longrightarrow>
             (\<exists>st. map_of (by_product_type r) c = Some st
               \<and> s_count st = length g
               \<and> s_total_value st = py_sum (map nominal_value g)
               \<and> truediv (s_total_value st) (s_count st) = Inr (s_average_value st)
               \<and> s_countries st = Some (set (map (\<lambda>p. Country_value (country p)) g))
               \<and> s_currencies st = Some (set (map (\<lambda>p. Currency_value (currency p)) g))
               \<and> (\<exists>d. s_risk_distribution st = Some d
               \<and> (\<forall>k. map_of d k =
                     (let rl = map (\<lambda>p. RiskLevel_value (risk_level p)) g
                      in if k \<in> set rl then Some (count_list rl k) else None)))))"
proof (cases "products pl = []")
  case True
  then show ?thesis
    by (simp add: analyze_products_empty)
next
  case False
  then show ?thesis
    using country_partition_bundle [of "products pl" "self_analysis self"]
          currency_partition_bundle [of "products pl" "self_analysis self"]
          risk_partition_bundle [of "products pl" "self_analysis self"]
          type_partition_bundle [of "products pl" "self_analysis self"]
    by (simp add: analyze_products_nonempty)
qed

text \<open>C5, at the French partition of the two test products.\<close>

theorem partition_statistics_witness:
  "\<exists>r self' st. analyze_products (SRPAnalyzer_init None) (Some list12) = Inr (r, self')
     \<and> map_of (by_country r) FRANCE = Some st
     \<and> s_count st = 1 \<and> s_total_value st = Fin 10000 \<and> s_average_value st = Fin 10000
     \<and> s_currencies st = Some {''EUR''} \<and> s_product_types st = Some {''bond''}
     \<and> (\<exists>d. s_risk_distribution st = Some d \<and> map_of d ''3'' = Some 1)"
proof -
  from partition_statistics [of "SRPAnalyzer_init None" list12]
  obtain r self' where run: "analyze_products (SRPAnalyzer_init None) (Some list12) = Inr (r, self')"
    and fr: "\<forall>c. let g = filter (\<lambda>p. country p = c) (products list12)
          in g \<noteq> [] \<longrightarrow>
             (\<exists>st. map_of (by_country r) c = Some st
               \<and> s_count st = length g
               \<and> s_total_value st = py_sum (map nominal_value g)
               \<and> truediv (s_total_value st) (s_count st) = Inr (s_average_value st)
               \<and> s_currencies st = Some (set (map (\<lambda>p. Currency_value (currency p)) g))
               \<and> s_product_types st = Some (set (map (\<lambda>p. ProductType_value (product_type p)) g))
               \<and> (\<exists>d. s_risk_distribution st = Some d
               \<and> (\<forall>k. map_of d k =
                     (let rl = map (\<lambda>p. RiskLevel_value (risk_level p)) g
                      in if k \<in> set rl then Some (count_list rl k) else None))))"
    by blast
  from fr [THEN spec, of FRANCE] run show ?thesis
    by (auto simp: Let_def product1_def product2_def py_sum_def truediv_def fdiv_def)
qed

text \<open>
  C5 as stated, with a risk-level frequency distribution in the bundle of every
  dimension, fails for the risk-level dimension: \<^verbatim>\<open>_analyze_by_risk_level\<close> stores no
  \<^verbatim>\<open>risk_distribution\<close> key.
\<close>

theorem risk_bundle_without_distribution:
  "\<exists>r self' st. analyze_products (SRPAnalyzer_init None) (Some list1) = Inr (r, self')
     \<and> filter (\<lambda>p. risk_level p = MEDIUM) (products list1) \<noteq> []
     \<and> map_of (by_risk_level r) MEDIUM = Some st
     \<and> s_risk_distribution st = None"
  by (simp add: analyze_products_nonempty full_analysis_def map_of_risk_upd
      product1_def risk_stats_def truediv_def)

section \<open>Filtering and reporting\<close>

text \<open>
  The dictionary is a \<^verbatim>\<open>Dict[str, Any]\<close> and the code checks the type of no value.  A
  number where the issuer substring is expected, or a string where a bound is expected,
  is no predicate of the specification; on a collection that is not empty it raises
  (\<^verbatim>\<open>int\<close> has no \<^verbatim>\<open>lower\<close>; a float is not compared with a string).  \<open>well_typed\<close>
  leaves these dictionaries out.
\<close>

lemma value_of_wrong_type_raises:
  "get_filtered_products (SRPAnalyzer_init (Some list1)) (Some [''issuer'' \<mapsto> VNum (Fin 5)])
     = Inl AttributeError
   \<and> get_filtered_products (SRPAnalyzer_init (Some list1))
       (Some [''min_nominal_value'' \<mapsto> VStr ''1000''])
     = Inl TypeError"
  by (simp add: get_filtered_products_def filter_issuer_def filter_min_def)

text \<open>\<^verbatim>\<open>str.lower()\<close> at the issuer of the third product, at characters that have no
  lower case, and at the letters A to Z.\<close>

lemma str_lower_examples:
  "str_lower (''CR'' @ [CHR 0xC9] @ ''DIT AGRICOLE'') = ''cr'' @ [CHR 0xE9] @ ''dit agricole''"
  "str_lower [CHR 0xD7, CHR 0xDF, CHR 0xB5, CHR 0xFF, CHR ''1'', CHR '' '']
     = [CHR 0xD7, CHR 0xDF, CHR 0xB5, CHR 0xFF, CHR ''1'', CHR '' '']"
  "str_lower ''Test Bank A'' = ''test bank a''"
  by (simp_all add: str_lower_def char_lower_def upper_letters_def lower_letters_def)



text \<open>
  C7.  The claim: analyzing a collection of no record returns a result with
  \<^verbatim>\<open>total_products\<close>, \<^verbatim>\<open>total_value\<close> and \<^verbatim>\<open>average_nominal_value\<close> zero and every
  breakdown empty.  The code does not do this after an earlier analysis: the early
  return hands back \<^verbatim>\<open>self.analysis\<close> as the earlier call left it, with one product,
  its value, and breakdowns that are not empty.
\<close>

theorem stale_result_for_empty_collection:
  "\<exists>r1 a1 r2 a2. analyze_products (SRPAnalyzer_init None) (Some list1) = Inr (r1, a1)
     \<and> analyze_products a1 (Some SRPProductList_init) = Inr (r2, a2)
     \<and> products SRPProductList_init = []
     \<and> total_products r2 = 1 \<and> total_value r2 = Fin 10000
     \<and> average_nominal_value r2 = Fin 10000
     \<and> map fst (by_country r2) = [FRANCE] \<and> map fst (by_currency r2) = [EUR]"
  by (simp add: analyze_products_nonempty analyze_products_empty full_analysis_def
      product1_def py_sum_def fdiv_def SRPAnalysis_init_def
      all_Country_def all_Currency_def country_upd_def currency_upd_def)

text \<open>
  C8.  The claim: the result is determined by the collection analysed, whatever the
  analyzer did before.  The breakdown dictionaries of \<^verbatim>\<open>self.analysis\<close> are only ever
  added to: an analyzer that analysed the French test product and then analyses the
  Belgian one returns a \<^verbatim>\<open>by_country\<close> with both countries, where a new analyzer
  returns Belgium alone, so the two results for the same collection differ.
\<close>

theorem result_depends_on_earlier_analyses:
  "\<exists>r1 a1 r2 a2 r3 a3.
       analyze_products (SRPAnalyzer_init None) (Some list1) = Inr (r1, a1)
     \<and> analyze_products a1 (Some list2) = Inr (r2, a2)
     \<and> analyze_products (SRPAnalyzer_init None) (Some list2) = Inr (r3, a3)
     \<and> map fst (by_country r2) = [FRANCE, BELGIUM]
     \<and> map fst (by_country r3) = [BELGIUM]
     \<and> r2 \<noteq> r3"
proof -
  have k2: "map fst (by_country (full_analysis [product2]
              (full_analysis [product1] SRPAnalysis_init))) = [FRANCE, BELGIUM]"
    by (simp add: full_analysis_def product1_def product2_def SRPAnalysis_init_def
        all_Country_def country_upd_def)
  have k3: "map fst (by_country (full_analysis [product2] SRPAnalysis_init)) = [BELGIUM]"
    by (simp add: full_analysis_def product2_def SRPAnalysis_init_def
        all_Country_def country_upd_def)
  from k2 k3 have "full_analysis [product2] (full_analysis [product1] SRPAnalysis_init)
                     \<noteq> full_analysis [product2] SRPAnalysis_init"
    by auto
  with k2 k3 show ?thesis
    by (simp add: analyze_products_nonempty)
qed

text \<open>
  C9.  When \<^verbatim>\<open>total_products\<close> is 0 the report is the single paragraph that says there
  is no data.  Otherwise it is, in this order: the header with the clock's reading; the
  overall statistics; one section for each of \<^verbatim>\<open>by_country\<close>, \<^verbatim>\<open>by_currency\<close> and
  \<^verbatim>\<open>by_risk_level\<close> that is not empty, with one subsection per key; the table of the
  first ten \<^verbatim>\<open>top_issuers\<close> when there is one; the closing tags.  An empty dimension is
  left out without a placeholder, \<^verbatim>\<open>by_product_type\<close> and \<^verbatim>\<open>monthly_evolution\<close> are
  never rendered, and the document depends on nothing but \<^verbatim>\<open>self.analysis\<close> and the
  clock.
\<close>

theorem report_document:
  "(total_products (self_analysis self) = 0 \<longrightarrow> generate_report self now = [NoData])
   \<and> (total_products (self_analysis self) \<noteq> 0 \<longrightarrow>
        generate_report self now =
          [Header now,
           GeneralStats (total_products (self_analysis self)) (total_value (self_analysis self))
             (average_nominal_value (self_analysis self))]
          @ (if by_country (self_analysis self) \<noteq> []
             then [CountrySection
                     (map (\<lambda>(c, st). (Country_value c, s_count st, s_total_value st,
                                       s_average_value st))
                        (by_country (self_analysis self)))]
             else [])
          @ (if by_currency (self_analysis self) \<noteq> []
             then [CurrencySection
                     (map (\<lambda>(c, st). (Currency_value c, s_count st, s_total_value st))
                        (by_currency (self_analysis self)))]
             else [])
          @ (if by_risk_level (self_analysis self) \<noteq> []
             then [RiskSection
                     (map (\<lambda>(r, st). (RiskLevel_value r,
                                       (case map_of risk_labels (RiskLevel_value r) of
                                          None \<Rightarrow> ''Inconnu'' | Some l \<Rightarrow> l),
                                       s_count st, s_total_value st))
                        (by_risk_level (self_analysis self)))]
             else [])
          @ (if top_issuers (self_analysis self) \<noteq> []
             then [IssuersSection
                     (map (\<lambda>e. (i_issuer e, i_count e, i_total_value e, i_average_value e))
                        (take 10 (top_issuers (self_analysis self))))]
             else [])
          @ [Footer]
        \<and> NoData \<notin> set (generate_report self now))
   \<and> (self_analysis self = self_analysis other \<longrightarrow>
        generate_report self now = generate_report other now)"
  by (simp add: generate_report_def generate_html_report_def generate_country_section_def
      generate_currency_section_def generate_risk_section_def generate_issuers_section_def
      Let_def)

text \<open>C9, at the report that follows the analysis of the first test product.\<close>

theorem report_document_witness:
  "\<exists>r a. analyze_products (SRPAnalyzer_init None) (Some list1) = Inr (r, a)
     \<and> generate_report a 0 =
         [Header 0, GeneralStats 1 (Fin 10000) (Fin 10000),
          CountrySection [(''FR'', 1, Fin 10000, Fin 10000)],
          CurrencySection [(''EUR'', 1, Fin 10000)],
          RiskSection [(''3'', ''Moyen'', 1, Fin 10000)],
          IssuersSection [(''Test Bank A'', 1, Fin 10000, Fin 10000)],
          Footer]"
proof -
  let ?r = "full_analysis [product1] SRPAnalysis_init"
  let ?a = "\<lparr> self_products = list1, self_analysis = ?r \<rparr>"
  have run: "analyze_products (SRPAnalyzer_init None) (Some list1) = Inr (?r, ?a)"
    by (simp add: analyze_products_nonempty effective_def)
  have r: "total_products ?r = 1" "total_value ?r = Fin 10000"
      "average_nominal_value ?r = Fin 10000"
      "by_country ?r = [(FRANCE, projr (country_stats [product1]))]"
      "by_currency ?r = [(EUR, projr (currency_stats [product1]))]"
      "by_risk_level ?r = [(MEDIUM, projr (risk_stats [product1]))]"
      "map (\<lambda>e. (i_issuer e, i_count e, i_total_value e, i_average_value e)) (top_issuers ?r)
         = [(''Test Bank A'', 1, Fin 10000, Fin 10000)]"
    by (simp_all add: full_analysis_def SRPAnalysis_init_def product1_def py_sum_def fdiv_def
        all_Country_def all_Currency_def all_RiskLevel_def country_upd_def currency_upd_def
        risk_upd_def issuer_stats_def issuer_step_def IssuerAcc_default_def issuer_entry_def
        sort_reverse_def sort_lt_def)
  have s: "s_count (projr (country_stats [product1])) = 1"
      "s_total_value (projr (country_stats [product1])) = Fin 10000"
      "s_average_value (projr (country_stats [product1])) = Fin 10000"
      "s_count (projr (currency_stats [product1])) = 1"
      "s_total_value (projr (currency_stats [product1])) = Fin 10000"
      "s_count (projr (risk_stats [product1])) = 1"
      "s_total_value (projr (risk_stats [product1])) = Fin 10000"
    by (simp_all add: country_stats_def currency_stats_def risk_stats_def truediv_def fdiv_def
        py_sum_def product1_def)
  have t: "top_issuers ?r \<noteq> []" "take 10 (top_issuers ?r) = top_issuers ?r"
    using r(7) by (auto simp: full_analysis_def)
  have "generate_report ?a 0 =
         [Header 0, GeneralStats 1 (Fin 10000) (Fin 10000),
          CountrySection [(''FR'', 1, Fin 10000, Fin 10000)],
          CurrencySection [(''EUR'', 1, Fin 10000)],
          RiskSection [(''3'', ''Moyen'', 1, Fin 10000)],
          IssuersSection [(''Test Bank A'', 1, Fin 10000, Fin 10000)],
          Footer]"
    using report_document [of ?a 0 ?a] t
    by (simp add: r s risk_labels_def)
  with run show ?thesis by blast
qed

text \<open>
  C9 as stated fails for the zero-valued result, whose report has neither header nor
  statistics, and for the result of an analysis: its product-type and monthly
  breakdowns are not empty and the report has seven blocks, the header, the statistics,
  four sections and the closing tags, none of them for those two breakdowns.
\<close>

theorem report_without_header_or_section:
  "generate_report (SRPAnalyzer_init None) 0 = [NoData]
   \<and> (\<exists>r a. analyze_products (SRPAnalyzer_init None) (Some list1) = Inr (r, a)
        \<and> by_product_type r \<noteq> [] \<and> monthly_evolution r \<noteq> []
        \<and> length (generate_report a 0) = 7)"
proof -
  let ?r = "full_analysis [product1] SRPAnalysis_init"
  let ?a = "\<lparr> self_products = list1, self_analysis = ?r \<rparr>"
  have run: "analyze_products (SRPAnalyzer_init None) (Some list1) = Inr (?r, ?a)"
    by (simp add: analyze_products_nonempty effective_def)
  have r: "total_products ?r = 1"
      "by_country ?r \<noteq> []" "by_currency ?r \<noteq> []" "by_risk_level ?r \<noteq> []"
      "by_product_type ?r \<noteq> []" "top_issuers ?r \<noteq> []" "monthly_evolution ?r \<noteq> []"
    by (simp_all add: full_analysis_def SRPAnalysis_init_def product1_def
        all_Country_def all_Currency_def all_RiskLevel_def all_ProductType_def
        country_upd_def currency_upd_def risk_upd_def type_upd_def
        issuer_stats_def issuer_step_def IssuerAcc_default_def
        monthly_stats_def month_step_def month_upd_def
        sort_reverse_def sort_lt_def)
  have "length (generate_report ?a 0) = 7"
    using r by (simp add: generate_report_def generate_html_report_def Let_def)
  moreover have "generate_report (SRPAnalyzer_init None) 0 = [NoData]"
    by (simp add: generate_report_def SRPAnalysis_init_def)
  ultimately show ?thesis using run r by blast
qed

section \<open>The product collection\<close>

text \<open>
  C10.  \<^verbatim>\<open>add_product\<close> has no failing branch and never looks at \<^verbatim>\<open>product_id\<close>:
  for every collection and every record it appends the record at the end, whatever
  identifiers the collection already holds, and afterwards \<^verbatim>\<open>total_count\<close> is the
  number of stored records.  Adding the same record twice therefore stores two records
  with the same identifier.
\<close>

theorem add_product_appends_without_id_check:
  "products (add_product self p) = products self @ [p]
   \<and> total_count (add_product self p) = int (length (products (add_product self p)))
   \<and> products (add_product (add_product self p) p) = products self @ [p, p]
   \<and> map product_id (products (add_product (add_product self p) p))
       = map product_id (products self) @ [product_id p, product_id p]
   \<and> total_count (add_product (add_product self p) p) = int (length (products self)) + 2"
  by (simp add: add_product_def Let_def)

end
